theory Spec2Isabelle
  imports Main
begin

section \<open>Data model\<close>

text \<open>
  A Python \<open>str\<close> is a sequence of Unicode code points and \<open>len\<close> counts code points,
  so text is modelled as a list of code points, not as a byte string.
\<close>

type_synonym ustr = "nat list"

definition ascii :: "string \<Rightarrow> ustr" where
  "ascii s = map of_char s"

text \<open>
  A timestamp is one reading of the wall clock. The source stores
  \<open>datetime.now().isoformat()\<close>; two readings give the same text exactly when they are
  the same reading, so the reading itself stands for the stored text.
\<close>

type_synonym timestamp = nat

text \<open>One row of the table \<open>users\<close>, with the columns the source reads and writes.\<close>

record user_row =
  telegram_id :: int
  telegram_username :: "ustr option"
  telegram_name :: ustr
  game_nick :: ustr
  created_at :: timestamp
  updated_at :: timestamp

text \<open>The dictionary \<open>user_data\<close> built in \<open>save_user_nick\<close> (source lines 68 to 74).\<close>

record user_data =
  ud_telegram_id :: int
  ud_telegram_username :: "ustr option"
  ud_telegram_name :: ustr
  ud_game_nick :: ustr
  ud_updated_at :: timestamp

datatype exn = Backend_error | Telegram_error

datatype log_level = Info | Warning | Error

text \<open>The log lines of the source, one constructor for each format string.\<close>

datatype log_msg =
    Nick_lookup_failed exn
  | Nick_updated int ustr
  | User_added int ustr
  | Nick_save_failed exn
  | Stats_failed exn
  | Search_failed exn
  | Delete_failed int exn
  | Reminder_failed exn

datatype parse_mode = Markdown

record message =
  msg_chat_id :: int
  msg_id :: int

text \<open>The calls made to the chat platform, in the order the handlers issue them.\<close>

datatype api_call =
    Send_message int ustr "parse_mode option"
  | Reply_text message ustr "parse_mode option" "int option"
  | Delete_message message
  | Sleep nat

text \<open>
  Everything outside the process: the table, the outcome of each coming backend request
  (\<open>True\<close>: the request raises; an exhausted list: no more failures), the number of
  requests issued so far, the wall clock with the number of readings taken, the outcome
  of each coming platform call, the identifier the platform gives to the next message
  the bot posts, the platform calls issued, and the log.
\<close>

record world =
  users :: "user_row list"
  db_faults :: "bool list"
  db_requests :: nat
  clock :: "nat \<Rightarrow> timestamp"
  clock_reads :: nat
  api_faults :: "bool list"
  next_message_id :: int
  calls :: "api_call list"
  logged :: "(log_level \<times> log_msg) list"

section \<open>Effects\<close>

text \<open>
  A computation either returns a value (\<open>Inr\<close>) or raises (\<open>Inl\<close>), and leaves a world.
\<close>

type_synonym 'a io = "world \<Rightarrow> (exn + 'a) \<times> world"

definition return_io :: "'a \<Rightarrow> 'a io" where
  "return_io x w = (Inr x, w)"

definition bind_io :: "'a io \<Rightarrow> ('a \<Rightarrow> 'b io) \<Rightarrow> 'b io" where
  "bind_io m f w = (case m w of (Inl e, w') \<Rightarrow> (Inl e, w') | (Inr x, w') \<Rightarrow> f x w')"

text \<open>\<open>try: body except Exception as e: handler\<close>.\<close>

definition try_except :: "'a io \<Rightarrow> (exn \<Rightarrow> 'a io) \<Rightarrow> 'a io" where
  "try_except body handler w =
     (case body w of (Inl e, w') \<Rightarrow> handler e w' | (Inr x, w') \<Rightarrow> (Inr x, w'))"

definition logger :: "log_level \<Rightarrow> log_msg \<Rightarrow> unit io" where
  "logger lvl m w = (Inr (), w\<lparr>logged := logged w @ [(lvl, m)]\<rparr>)"

definition datetime_now :: "timestamp io" where
  "datetime_now w = (Inr (clock w (clock_reads w)), w\<lparr>clock_reads := Suc (clock_reads w)\<rparr>)"

text \<open>
  \<open>.execute()\<close>: one request to the backend. It either raises, leaving the table as it
  was, or runs the query on the table.
\<close>

definition execute :: "(user_row list \<Rightarrow> 'a \<times> user_row list) \<Rightarrow> 'a io" where
  "execute q w =
     (let w1 = w\<lparr>db_requests := Suc (db_requests w)\<rparr> in
      case db_faults w of
        True # fs \<Rightarrow> (Inl Backend_error, w1\<lparr>db_faults := fs\<rparr>)
      | False # fs \<Rightarrow> (case q (users w) of (r, rows) \<Rightarrow> (Inr r, w1\<lparr>users := rows, db_faults := fs\<rparr>))
      | [] \<Rightarrow> (case q (users w) of (r, rows) \<Rightarrow> (Inr r, w1\<lparr>users := rows\<rparr>)))"

section \<open>Queries on the table\<close>

definition eq_telegram_id :: "int \<Rightarrow> user_row \<Rightarrow> bool" where
  "eq_telegram_id tid r = (telegram_id r = tid)"

text \<open>\<open>select(col).eq('telegram_id', tid)\<close>\<close>

definition select_eq :: "(user_row \<Rightarrow> 'a) \<Rightarrow> int \<Rightarrow> user_row list \<Rightarrow> 'a list \<times> user_row list" where
  "select_eq col tid rows = (map col (filter (eq_telegram_id tid) rows), rows)"

definition apply_user_data :: "user_data \<Rightarrow> user_row \<Rightarrow> user_row" where
  "apply_user_data d r =
     r\<lparr>telegram_id := ud_telegram_id d,
       telegram_username := ud_telegram_username d,
       telegram_name := ud_telegram_name d,
       game_nick := ud_game_nick d,
       updated_at := ud_updated_at d\<rparr>"

text \<open>\<open>update(user_data).eq('telegram_id', tid)\<close>\<close>

definition update_eq :: "user_data \<Rightarrow> int \<Rightarrow> user_row list \<Rightarrow> unit \<times> user_row list" where
  "update_eq d tid rows =
     ((), map (\<lambda>r. if eq_telegram_id tid r then apply_user_data d r else r) rows)"

text \<open>\<open>insert(user_data)\<close>, after \<open>user_data['created_at']\<close> was set.\<close>

definition insert_row :: "user_data \<Rightarrow> timestamp \<Rightarrow> user_row list \<Rightarrow> unit \<times> user_row list" where
  "insert_row d c rows =
     ((), rows @ [\<lparr>telegram_id = ud_telegram_id d,
                   telegram_username = ud_telegram_username d,
                   telegram_name = ud_telegram_name d,
                   game_nick = ud_game_nick d,
                   created_at = c,
                   updated_at = ud_updated_at d\<rparr>])"

text \<open>\<open>select('telegram_id', count='exact')\<close>: the rows and their exact count.\<close>

definition select_count :: "user_row list \<Rightarrow> (int list \<times> nat) \<times> user_row list" where
  "select_count rows = ((map telegram_id rows, length rows), rows)"

text \<open>
  \<open>select('telegram_name, game_nick, created_at').order('created_at', desc=True).limit(5)\<close>.
  The order among rows of equal \<open>created_at\<close> is the backend's choice; here it is the
  reverse of the stable ascending sort.
\<close>

definition select_recent :: "user_row list \<Rightarrow> (ustr \<times> ustr \<times> timestamp) list \<times> user_row list" where
  "select_recent rows =
     (map (\<lambda>r. (telegram_name r, game_nick r, created_at r))
        (take 5 (rev (sort_key created_at rows))), rows)"

text \<open>
  The filter text handed to \<open>or_\<close> in \<open>search_nick\<close> (source line 125):
  \<open>game_nick.ilike.%TEXT%,telegram_name.ilike.%TEXT%\<close>.
\<close>

definition or_filter :: "ustr \<Rightarrow> ustr" where
  "or_filter search_text =
     ascii ''game_nick.ilike.%'' @ search_text @ ascii ''%,telegram_name.ilike.%''
       @ search_text @ ascii ''%''"

text \<open>
  \<open>select('telegram_name, game_nick').or_(flt).limit(10)\<close>. What rows a filter text
  selects is decided by the backend, which is not part of the repository: it is the
  parameter \<open>sel\<close>.
\<close>

definition select_or :: "(ustr \<Rightarrow> user_row \<Rightarrow> bool) \<Rightarrow> ustr \<Rightarrow> user_row list
    \<Rightarrow> (ustr \<times> ustr) list \<times> user_row list" where
  "select_or sel flt rows =
     (map (\<lambda>r. (telegram_name r, game_nick r)) (take 10 (filter (sel flt) rows)), rows)"

section \<open>DatabaseManager\<close>

text \<open>The body of the \<open>try\<close> block of \<open>get_user_nick\<close> (source lines 46 to 53).\<close>

definition get_user_nick_body :: "int \<Rightarrow> ustr option io" where
  "get_user_nick_body tid =
     bind_io (execute (select_eq game_nick tid)) (\<lambda>data.
       case data of
         n # _ \<Rightarrow> return_io (Some n)
       | [] \<Rightarrow> return_io None)"

definition get_user_nick :: "int \<Rightarrow> ustr option io" where
  "get_user_nick tid =
     try_except (get_user_nick_body tid)
       (\<lambda>e. bind_io (logger Error (Nick_lookup_failed e)) (\<lambda>_. return_io None))"

text \<open>The body of the \<open>try\<close> block of \<open>save_user_nick\<close> (source lines 63 to 89).\<close>

definition save_user_nick_body :: "int \<Rightarrow> ustr option \<Rightarrow> ustr \<Rightarrow> ustr \<Rightarrow> bool io" where
  "save_user_nick_body tid username name nick =
     bind_io (execute (select_eq telegram_id tid)) (\<lambda>existing.
     bind_io datetime_now (\<lambda>t_updated.
       let d = \<lparr>ud_telegram_id = tid,
                ud_telegram_username = username,
                ud_telegram_name = name,
                ud_game_nick = nick,
                ud_updated_at = t_updated\<rparr>
       in
         bind_io
           (if existing \<noteq> [] then
              bind_io (execute (update_eq d tid)) (\<lambda>_.
                logger Info (Nick_updated tid nick))
            else
              bind_io datetime_now (\<lambda>t_created.
              bind_io (execute (insert_row d t_created)) (\<lambda>_.
                logger Info (User_added tid nick))))
           (\<lambda>_. return_io True)))"

definition save_user_nick :: "int \<Rightarrow> ustr option \<Rightarrow> ustr \<Rightarrow> ustr \<Rightarrow> bool io" where
  "save_user_nick tid username name nick =
     try_except (save_user_nick_body tid username name nick)
       (\<lambda>e. bind_io (logger Error (Nick_save_failed e)) (\<lambda>_. return_io False))"

text \<open>The dictionary returned by \<open>get_stats\<close>.\<close>

record stats =
  total :: nat
  recent :: "(ustr \<times> ustr \<times> timestamp) list"

text \<open>
  The body of the \<open>try\<close> block of \<open>get_stats\<close> (source lines 98 to 114). The response
  has a \<open>count\<close>, so \<open>total\<close> is the exact count; \<open>total or 0\<close> and
  \<open>recent.data if recent.data else []\<close> change nothing on a number and a list.
\<close>

definition get_stats_body :: "stats io" where
  "get_stats_body =
     bind_io (execute select_count) (\<lambda>response.
     bind_io (execute select_recent) (\<lambda>recent_data.
       return_io \<lparr>total = snd response, recent = recent_data\<rparr>))"

definition get_stats :: "stats io" where
  "get_stats =
     try_except get_stats_body
       (\<lambda>e. bind_io (logger Error (Stats_failed e)) (\<lambda>_.
          return_io \<lparr>total = 0, recent = []\<rparr>))"

text \<open>The body of the \<open>try\<close> block of \<open>search_nick\<close> (source lines 123 to 129).\<close>

definition search_nick_body :: "(ustr \<Rightarrow> user_row \<Rightarrow> bool) \<Rightarrow> ustr \<Rightarrow> (ustr \<times> ustr) list io" where
  "search_nick_body sel search_text = execute (select_or sel (or_filter search_text))"

definition search_nick :: "(ustr \<Rightarrow> user_row \<Rightarrow> bool) \<Rightarrow> ustr \<Rightarrow> (ustr \<times> ustr) list io" where
  "search_nick sel search_text =
     try_except (search_nick_body sel search_text)
       (\<lambda>e. bind_io (logger Error (Search_failed e)) (\<lambda>_. return_io []))"

section \<open>The chat platform\<close>

datatype chat_type = Private | Group | Supergroup | Channel

record tg_user =
  user_id :: int
  username :: "ustr option"
  first_name :: ustr

text \<open>
  What the handlers read of an \<open>Update\<close>: the chat of the message, the message's
  identifier and text, and the sender.
\<close>

record tg_update =
  chat_type :: chat_type
  effective_chat_id :: int
  message_id :: int
  msg_text :: "ustr option"
  effective_user :: tg_user

definition update_message :: "tg_update \<Rightarrow> message" where
  "update_message u = \<lparr>msg_chat_id = effective_chat_id u, msg_id = message_id u\<rparr>"

text \<open>One call to the platform: it is issued, and then either raises or succeeds.\<close>

definition platform :: "api_call \<Rightarrow> unit io" where
  "platform c w =
     (let w1 = w\<lparr>calls := calls w @ [c]\<rparr> in
      case api_faults w of
        True # fs \<Rightarrow> (Inl Telegram_error, w1\<lparr>api_faults := fs\<rparr>)
      | False # fs \<Rightarrow> (Inr (), w1\<lparr>api_faults := fs\<rparr>)
      | [] \<Rightarrow> (Inr (), w1))"

text \<open>A call that posts a message returns the posted message, with a fresh identifier.\<close>

definition post :: "int \<Rightarrow> api_call \<Rightarrow> message io" where
  "post chat c =
     bind_io (platform c) (\<lambda>_ w.
       (Inr \<lparr>msg_chat_id = chat, msg_id = next_message_id w\<rparr>,
        w\<lparr>next_message_id := next_message_id w + 1\<rparr>))"

definition send_message :: "int \<Rightarrow> ustr \<Rightarrow> parse_mode option \<Rightarrow> message io" where
  "send_message chat txt pm = post chat (Send_message chat txt pm)"

definition reply_text :: "message \<Rightarrow> ustr \<Rightarrow> parse_mode option \<Rightarrow> int option \<Rightarrow> message io" where
  "reply_text m txt pm reply_to = post (msg_chat_id m) (Reply_text m txt pm reply_to)"

definition delete_message :: "message \<Rightarrow> unit io" where
  "delete_message m = platform (Delete_message m)"

definition asyncio_sleep :: "nat \<Rightarrow> unit io" where
  "asyncio_sleep secs w = (Inr (), w\<lparr>calls := calls w @ [Sleep secs]\<rparr>)"

section \<open>Strings\<close>

text \<open>\<open>' '.join(args)\<close>\<close>

fun join_space :: "ustr list \<Rightarrow> ustr" where
  "join_space [] = []"
| "join_space [a] = a"
| "join_space (a # b # rest) = a @ [32] @ join_space (b # rest)"

text \<open>The code points that \<open>str.strip()\<close> removes (those for which \<open>str.isspace\<close> holds).\<close>

definition isspace :: "nat \<Rightarrow> bool" where
  "isspace c =
     ((9 \<le> c \<and> c \<le> 13) \<or> (28 \<le> c \<and> c \<le> 32) \<or> c = 133 \<or> c = 160 \<or> c = 5760
      \<or> (8192 \<le> c \<and> c \<le> 8202) \<or> c = 8232 \<or> c = 8233 \<or> c = 8239 \<or> c = 8287
      \<or> c = 12288)"

definition strip :: "ustr \<Rightarrow> ustr" where
  "strip s = rev (dropWhile isspace (rev (dropWhile isspace s)))"

text \<open>\<open>s.startswith('/')\<close>\<close>

definition startswith_slash :: "ustr \<Rightarrow> bool" where
  "startswith_slash s = (case s of c # _ \<Rightarrow> c = 47 | [] \<Rightarrow> False)"

text \<open>\<open>str(n)\<close> for a number that is not negative.\<close>

function str_nat :: "nat \<Rightarrow> ustr" where
  "str_nat n = (if n < 10 then [48 + n] else str_nat (n div 10) @ [48 + n mod 10])"
  by pat_completeness auto
termination
  by (relation "measure (\<lambda>n. n)") auto

declare str_nat.simps [simp del]

text \<open>
  The truth value Python gives to a nickname in \<open>if current_nick:\<close>: \<open>None\<close> and the
  empty string are false. The handlers read the nickname itself (\<open>the n\<close>) only in the
  branch where it is true, hence present.
\<close>

definition truthy :: "ustr option \<Rightarrow> bool" where
  "truthy n = (case n of None \<Rightarrow> False | Some s \<Rightarrow> s \<noteq> [])"

section \<open>Reply texts\<close>

text \<open>
  The texts of the source, as code points. Source lines 182 to 184: the current
  nickname and how to change it.
\<close>

definition msg_current_nick :: "ustr \<Rightarrow> ustr" where
  "msg_current_nick current_nick =
       [127918, 32, 42, 42, 1058, 1074, 1086, 1081, 32, 1090, 1077, 1082, 1091, 1097,
        1080, 1081, 32, 1085, 1080, 1082, 58, 42, 42, 32]
     @ current_nick @
       [10, 10, 1063, 1090, 1086, 1073, 1099, 32, 1080, 1079, 1084, 1077, 1085, 1080,
        1090, 1100, 44, 32, 1085, 1072, 1087, 1080, 1096, 1080, 58, 10, 96, 47, 110,
        105, 99, 107, 32, 1053, 1086, 1074, 1099, 1081, 1048, 1075, 1088, 1086, 1074,
        1086, 1081, 1053, 1080, 1082, 96]"

text \<open>Source lines 189 to 197: how to set a nickname, with examples and the requirements.\<close>

definition msg_set_nick :: ustr where
  "msg_set_nick =
       [128221, 32, 42, 42, 1059, 1089, 1090, 1072, 1085, 1086, 1074, 1080, 32, 1080,
        1075, 1088, 1086, 1074, 1086, 1081, 32, 1085, 1080, 1082, 58, 42, 42, 10, 10,
        1053, 1072, 1087, 1080, 1096, 1080, 58, 32, 96, 47, 110, 105, 99, 107, 32, 1058,
        1074, 1086, 1081, 1053, 1080, 1082, 96, 10, 10, 1055, 1088, 1080, 1084, 1077,
        1088, 1099, 58, 10, 8226, 32, 96, 47, 110, 105, 99, 107, 32, 80, 114, 111, 80,
        108, 97, 121, 101, 114, 96, 10, 8226, 32, 96, 47, 110, 105, 99, 107, 32, 1050,
        1088, 1091, 1090, 1086, 1081, 1043, 1077, 1081, 1084, 1077, 1088, 96, 10, 8226,
        32, 96, 47, 110, 105, 99, 107, 32, 1054, 1093, 1086, 1090, 1085, 1080, 1082, 50,
        51, 96, 10, 10, 9888, 65039, 32, 42, 42, 1058, 1088, 1077, 1073, 1086, 1074,
        1072, 1085, 1080, 1103, 58, 42, 42, 10, 8226, 32, 1054, 1090, 32, 50, 32, 1076,
        1086, 32, 51, 50, 32, 1089, 1080, 1084, 1074, 1086, 1083, 1086, 1074, 10, 8226,
        32, 1041, 1077, 1079, 32, 1079, 1072, 1087, 1088, 1077, 1097, 1077, 1085, 1085,
        1099, 1093, 32, 1089, 1080, 1084, 1074, 1086, 1083, 1086, 1074]"

text \<open>Source line 207: the nickname is too short, at least 2 characters.\<close>

definition msg_too_short :: ustr where
  "msg_too_short =
       [10060, 32, 1057, 1083, 1080, 1096, 1082, 1086, 1084, 32, 1082, 1086, 1088, 1086,
        1090, 1082, 1080, 1081, 32, 1085, 1080, 1082, 46, 32, 1052, 1080, 1085, 1080,
        1084, 1091, 1084, 32, 50, 32, 1089, 1080, 1084, 1074, 1086, 1083, 1072, 46]"

text \<open>Source line 211: the nickname is too long, at most 32 characters.\<close>

definition msg_too_long :: ustr where
  "msg_too_long =
       [10060, 32, 1057, 1083, 1080, 1096, 1082, 1086, 1084, 32, 1076, 1083, 1080, 1085,
        1085, 1099, 1081, 32, 1085, 1080, 1082, 46, 32, 1052, 1072, 1082, 1089, 1080,
        1084, 1091, 1084, 32, 51, 50, 32, 1089, 1080, 1084, 1074, 1086, 1083, 1072, 46]"

text \<open>Source line 218: the nickname contains a forbidden character, which is named.\<close>

definition msg_forbidden :: "nat \<Rightarrow> ustr" where
  "msg_forbidden char =
       [10060, 32, 1053, 1080, 1082, 32, 1089, 1086, 1076, 1077, 1088, 1078, 1080, 1090,
        32, 1079, 1072, 1087, 1088, 1077, 1097, 1077, 1085, 1085, 1099, 1081, 32, 1089,
        1080, 1084, 1074, 1086, 1083, 58, 32]
     @ [char]"

text \<open>Source lines 234 to 241: the nickname was saved, the total count, what to do next.\<close>

definition msg_saved :: "ustr \<Rightarrow> ustr \<Rightarrow> nat \<Rightarrow> ustr" where
  "msg_saved name nick n =
       [9989, 32, 42, 42, 1054, 1090, 1083, 1080, 1095, 1085, 1086, 44, 32]
     @ name @
       [33, 42, 42, 10, 10, 127918, 32, 1058, 1074, 1086, 1081, 32, 1080, 1075, 1088,
        1086, 1074, 1086, 1081, 32, 1085, 1080, 1082, 58, 32, 42, 42]
     @ nick @
       [42, 42, 10, 10, 128202, 32, 1042, 1089, 1077, 1075, 1086, 32, 1080, 1075, 1088,
        1086, 1082, 1086, 1074, 32, 1074, 32, 1073, 1072, 1079, 1077, 58, 32, 42, 42]
     @ str_nat n @
       [42, 42, 10, 10, 42, 42, 1063, 1090, 1086, 32, 1076, 1072, 1083, 1100, 1096,
        1077, 58, 42, 42, 10, 49, 46, 32, 1044, 1086, 1073, 1072, 1074, 1100, 32, 1084,
        1077, 1085, 1103, 32, 1074, 32, 1075, 1088, 1091, 1087, 1087, 1091, 32, 1082,
        1072, 1082, 32, 1072, 1076, 1084, 1080, 1085, 1080, 1089, 1090, 1088, 1072,
        1090, 1086, 1088, 1072, 10, 50, 46, 32, 1044, 1072, 1081, 32, 1087, 1088, 1072,
        1074, 1072, 32, 1085, 1072, 32, 1091, 1076, 1072, 1083, 1077, 1085, 1080, 1077,
        32, 1089, 1086, 1086, 1073, 1097, 1077, 1085, 1080, 1081, 10, 51, 46, 32, 1055,
        1080, 1096, 1080, 32, 1074, 32, 1075, 1088, 1091, 1087, 1087, 1077, 32, 45, 32,
        1103, 32, 1087, 1086, 1076, 1087, 1080, 1096, 1091, 32, 1090, 1074, 1086, 1080,
        32, 1089, 1086, 1086, 1073, 1097, 1077, 1085, 1080, 1103, 33, 10, 10, 128260,
        32, 1048, 1079, 1084, 1077, 1085, 1080, 1090, 1100, 32, 1085, 1080, 1082, 58,
        32, 96, 47, 110, 105, 99, 107, 32, 1053, 1086, 1074, 1099, 1081, 1053, 1080,
        1082, 96]"

text \<open>Source line 246: the nickname could not be saved.\<close>

definition msg_save_failed :: ustr where
  "msg_save_failed =
       [10060, 32, 1053, 1077, 32, 1091, 1076, 1072, 1083, 1086, 1089, 1100, 32, 1089,
        1086, 1093, 1088, 1072, 1085, 1080, 1090, 1100, 32, 1085, 1080, 1082, 46, 32,
        1055, 1086, 1087, 1088, 1086, 1073, 1091, 1081, 32, 1087, 1086, 1079, 1078,
        1077, 32, 1080, 1083, 1080, 32, 1086, 1073, 1088, 1072, 1090, 1080, 1089, 1100,
        32, 1082, 32, 1072, 1076, 1084, 1080, 1085, 1080, 1089, 1090, 1088, 1072, 1090,
        1086, 1088, 1091, 46]"

text \<open>Source lines 318 to 323: how to search, with examples.\<close>

definition msg_find_usage :: ustr where
  "msg_find_usage =
       [128269, 32, 42, 42, 1055, 1086, 1080, 1089, 1082, 32, 1080, 1075, 1088, 1086,
        1082, 1086, 1074, 58, 42, 42, 10, 10, 1053, 1072, 1087, 1080, 1096, 1080, 58,
        32, 96, 47, 102, 105, 110, 100, 32, 1085, 1080, 1082, 95, 1080, 1083, 1080, 95,
        1080, 1084, 1103, 96, 10, 10, 1055, 1088, 1080, 1084, 1077, 1088, 1099, 58, 10,
        8226, 32, 96, 47, 102, 105, 110, 100, 32, 112, 114, 111, 96, 32, 45, 32, 1085,
        1072, 1081, 1076, 1077, 1090, 32, 80, 114, 111, 80, 108, 97, 121, 101, 114, 44,
        32, 80, 114, 111, 71, 97, 109, 101, 114, 32, 1080, 32, 1090, 46, 1076, 46, 10,
        8226, 32, 96, 47, 102, 105, 110, 100, 32, 1072, 1083, 1077, 1082, 1089, 96, 32,
        45, 32, 1085, 1072, 1081, 1076, 1077, 1090, 32, 1040, 1083, 1077, 1082, 1089,
        1077, 1081, 44, 32, 1040, 1083, 1077, 1082, 1089, 1072, 1085, 1076, 1088, 10,
        8226, 32, 96, 47, 102, 105, 110, 100, 32, 48, 48, 55, 96, 32, 45, 32, 1085,
        1072, 1081, 1076, 1077, 1090, 32, 1087, 1086, 32, 1094, 1080, 1092, 1088, 1072,
        1084, 32, 1074, 32, 1085, 1080, 1082, 1077]"

text \<open>Source line 332: the heading of the results, quoting the search text.\<close>

definition msg_found_header :: "ustr \<Rightarrow> ustr" where
  "msg_found_header search_text =
       [128269, 32, 42, 42, 1053, 1072, 1081, 1076, 1077, 1085, 1086, 32, 1087, 1086,
        32, 1079, 1072, 1087, 1088, 1086, 1089, 1091, 32, 39]
     @ search_text @
       [39, 58, 42, 42, 10, 10]"

text \<open>Source line 334: one numbered result, \<open>idx. **nick** (name)\<close> and a line break.\<close>

definition msg_found_line :: "nat \<Rightarrow> ustr \<Rightarrow> ustr \<Rightarrow> ustr" where
  "msg_found_line idx nick name =
     str_nat idx @ [46, 32, 42, 42] @ nick @ [42, 42, 32, 40] @ name @ [41, 10]"

text \<open>Source line 337: a line break, then "... and n more results".\<close>

definition msg_omitted :: "nat \<Rightarrow> ustr" where
  "msg_omitted n =
       [10, 46, 46, 46, 32, 1080, 32, 1077, 1097, 1077, 32]
     @ str_nat n @
       [32, 1088, 1077, 1079, 1091, 1083, 1100, 1090, 1072, 1090, 1086, 1074]"

text \<open>Source line 339: nothing was found for the search text.\<close>

definition msg_not_found :: "ustr \<Rightarrow> ustr" where
  "msg_not_found search_text =
       [10060, 32, 1055, 1086, 32, 1079, 1072, 1087, 1088, 1086, 1089, 1091, 32, 39]
     @ search_text @
       [39, 32, 1085, 1080, 1095, 1077, 1075, 1086, 32, 1085, 1077, 32, 1085, 1072,
        1081, 1076, 1077, 1085, 1086, 46, 10, 10, 1055, 1086, 1087, 1088, 1086, 1073,
        1091, 1081, 32, 1076, 1088, 1091, 1075, 1086, 1081, 32, 1079, 1072, 1087, 1088,
        1086, 1089, 46]"

text \<open>
  Source line 390: the relayed message, two asterisks, the game-pad sign (code point
  127918) and a space, the nickname, a colon, two asterisks, a space, the text.
\<close>

definition msg_relay :: "ustr \<Rightarrow> ustr \<Rightarrow> ustr" where
  "msg_relay nick message_text =
     [42, 42, 127918, 32] @ nick @ [58, 42, 42, 32] @ message_text"

text \<open>Source lines 410 to 412: the reminder that a nickname is needed.\<close>

definition msg_reminder :: "ustr \<Rightarrow> ustr" where
  "msg_reminder name =
       [128100, 32]
     @ name @
       [44, 32, 1076, 1083, 1103, 32, 1086, 1090, 1087, 1088, 1072, 1074, 1082, 1080,
        32, 1089, 1086, 1086, 1073, 1097, 1077, 1085, 1080, 1081, 32, 1085, 1091, 1078,
        1077, 1085, 32, 1080, 1075, 1088, 1086, 1074, 1086, 1081, 32, 1085, 1080, 1082,
        33, 10, 10, 1053, 1072, 1087, 1080, 1096, 1080, 32, 1084, 1085, 1077, 32, 1074,
        32, 1083, 1080, 1095, 1085, 1099, 1077, 32, 1089, 1086, 1086, 1073, 1097, 1077,
        1085, 1080, 1103, 58, 10, 96, 47, 110, 105, 99, 107, 32, 1058, 1074, 1086, 1081,
        1048, 1075, 1088, 1086, 1074, 1086, 1081, 1053, 1080, 1082, 96]"

section \<open>Command handlers\<close>

text \<open>
  \<open>forbidden_chars\<close> (source line 215): less-than, greater-than, ampersand, double
  quote, single quote, backquote, backslash.
\<close>

definition forbidden_chars :: "nat list" where
  "forbidden_chars = [60, 62, 38, 34, 39, 96, 92]"

text \<open>
  The loop of source lines 216 to 219: the first character of the list, in the list's
  order, that occurs in the nickname, or none.
\<close>

fun first_forbidden :: "nat list \<Rightarrow> ustr \<Rightarrow> nat option" where
  "first_forbidden [] nick = None"
| "first_forbidden (char # rest) nick =
     (if char \<in> set nick then Some char else first_forbidden rest nick)"

text \<open>\<open>await update.message.reply_text(...)\<close> as a statement: the result is dropped.\<close>

definition reply :: "tg_update \<Rightarrow> ustr \<Rightarrow> parse_mode option \<Rightarrow> unit io" where
  "reply u txt pm = bind_io (reply_text (update_message u) txt pm None) (\<lambda>_. return_io ())"

definition nick_command :: "tg_update \<Rightarrow> ustr list \<Rightarrow> unit io" where
  "nick_command u args =
     (let user = effective_user u in
      if args = [] then
        bind_io (get_user_nick (user_id user)) (\<lambda>current_nick.
          if truthy current_nick then
            reply u (msg_current_nick (the current_nick)) (Some Markdown)
          else
            reply u msg_set_nick (Some Markdown))
      else
        let game_nick = strip (join_space args) in
        if length game_nick < 2 then reply u msg_too_short None
        else if length game_nick > 32 then reply u msg_too_long None
        else
          case first_forbidden forbidden_chars game_nick of
            Some char \<Rightarrow> reply u (msg_forbidden char) None
          | None \<Rightarrow>
              bind_io (save_user_nick (user_id user) (username user) (first_name user) game_nick)
                (\<lambda>success.
                   if success then
                     bind_io get_stats (\<lambda>stats.
                       reply u (msg_saved (first_name user) game_nick (total stats))
                         (Some Markdown))
                   else
                     reply u msg_save_failed None))"

text \<open>
  The loop of source lines 333 and 334 over \<open>enumerate(results[:10], 1)\<close>: the rows are
  pairs of \<open>telegram_name\<close> and \<open>game_nick\<close>.
\<close>

fun found_lines :: "nat \<Rightarrow> (ustr \<times> ustr) list \<Rightarrow> ustr" where
  "found_lines idx [] = []"
| "found_lines idx ((name, nick) # rest) =
     msg_found_line idx nick name @ found_lines (Suc idx) rest"

definition find_response :: "ustr \<Rightarrow> (ustr \<times> ustr) list \<Rightarrow> ustr" where
  "find_response search_text results =
     (if results \<noteq> [] then
        msg_found_header search_text @ found_lines 1 (take 10 results)
          @ (if length results > 10 then msg_omitted (length results - 10) else [])
      else msg_not_found search_text)"

definition find_command :: "(ustr \<Rightarrow> user_row \<Rightarrow> bool) \<Rightarrow> tg_update \<Rightarrow> ustr list \<Rightarrow> unit io" where
  "find_command sel u args =
     (if args = [] then reply u msg_find_usage (Some Markdown)
      else
        let search_text = join_space args in
        bind_io (search_nick sel search_text) (\<lambda>results.
          reply u (find_response search_text results) (Some Markdown)))"

section \<open>Group relay\<close>

definition handle_group_message :: "tg_update \<Rightarrow> unit io" where
  "handle_group_message u =
     (if chat_type u \<noteq> Group \<and> chat_type u \<noteq> Supergroup then return_io ()
      else if (case msg_text u of None \<Rightarrow> False | Some t \<Rightarrow> t \<noteq> [] \<and> startswith_slash t)
        then return_io ()
      else
        let user = effective_user u;
            message_text = (case msg_text u of None \<Rightarrow> [] | Some t \<Rightarrow> t)
        in
        bind_io (get_user_nick (user_id user)) (\<lambda>game_nick.
          if truthy game_nick then
            bind_io (send_message (effective_chat_id u)
                       (msg_relay (the game_nick) message_text) (Some Markdown))
              (\<lambda>sent_message.
                 try_except (delete_message (update_message u))
                   (\<lambda>e. bind_io (logger Warning (Delete_failed (message_id u) e)) (\<lambda>_.
                      try_except (delete_message sent_message) (\<lambda>_. return_io ()))))
          else
            try_except
              (bind_io (reply_text (update_message u) (msg_reminder (first_name user))
                          (Some Markdown) (Some (message_id u)))
                 (\<lambda>reminder.
                    bind_io (asyncio_sleep 15) (\<lambda>_. delete_message reminder)))
              (\<lambda>e. logger Error (Reminder_failed e))))"

section \<open>Notions used in the statements\<close>

text \<open>
  \<open>raises fs i\<close>: of the coming requests whose outcomes are \<open>fs\<close>, the one at position
  \<open>i\<close> (counted from 0) raises.
\<close>

definition raises :: "bool list \<Rightarrow> nat \<Rightarrow> bool" where
  "raises fs i = (i < length fs \<and> fs ! i)"

text \<open>
  \<open>replied_only u txt pm w w'\<close>: from \<open>w\<close> to \<open>w'\<close> the handler issued exactly one platform
  call, a reply to the message of \<open>u\<close> with text \<open>txt\<close>, and did not touch the store: no
  request was sent, the table, the clock readings and the log are as before.
\<close>

definition replied_only :: "tg_update \<Rightarrow> ustr \<Rightarrow> parse_mode option \<Rightarrow> world \<Rightarrow> world \<Rightarrow> bool" where
  "replied_only u txt pm w w' =
     (calls w' = calls w @ [Reply_text (update_message u) txt pm None]
      \<and> users w' = users w
      \<and> db_requests w' = db_requests w
      \<and> db_faults w' = db_faults w
      \<and> clock_reads w' = clock_reads w
      \<and> logged w' = logged w)"

definition is_send :: "api_call \<Rightarrow> bool" where
  "is_send c = (case c of Send_message _ _ _ \<Rightarrow> True | _ \<Rightarrow> False)"

section \<open>Sample inputs\<close>

text \<open>An empty table, a backend and a platform that do not fail, a clock that advances.\<close>

definition world0 :: world where
  "world0 =
     \<lparr>users = [], db_faults = [], db_requests = 0, clock = (\<lambda>n. 1000 + n), clock_reads = 0,
      api_faults = [], next_message_id = 500, calls = [], logged = []\<rparr>"

definition ann :: tg_user where
  "ann = \<lparr>user_id = 7, username = Some (ascii ''ann''), first_name = ascii ''Ann''\<rparr>"

definition hero_row :: user_row where
  "hero_row =
     \<lparr>telegram_id = 7, telegram_username = Some (ascii ''ann''), telegram_name = ascii ''Ann'',
      game_nick = ascii ''Hero'', created_at = 10, updated_at = 20\<rparr>"

definition zed_row :: user_row where
  "zed_row =
     \<lparr>telegram_id = 8, telegram_username = None, telegram_name = ascii ''Bob'',
      game_nick = ascii ''Zed'', created_at = 30, updated_at = 30\<rparr>"

definition group_update :: tg_update where
  "group_update =
     \<lparr>chat_type = Group, effective_chat_id = - 100, message_id = 41,
      msg_text = Some (ascii ''hi''), effective_user = ann\<rparr>"

definition private_update :: tg_update where
  "private_update =
     \<lparr>chat_type = Private, effective_chat_id = 7, message_id = 12,
      msg_text = Some (ascii ''/nick''), effective_user = ann\<rparr>"

definition find_update :: tg_update where
  "find_update =
     \<lparr>chat_type = Private, effective_chat_id = 7, message_id = 13,
      msg_text = Some (ascii ''/find pro''), effective_user = ann\<rparr>"

text \<open>Eleven rows, with the nicknames \<open>proa\<close> to \<open>prok\<close>.\<close>

definition pro_row :: "nat \<Rightarrow> user_row" where
  "pro_row i =
     \<lparr>telegram_id = int i, telegram_username = None, telegram_name = ascii ''ann'',
      game_nick = ascii ''pro'' @ [96 + i], created_at = i, updated_at = i\<rparr>"

definition pro_rows :: "user_row list" where
  "pro_rows = map pro_row [1, 2, 3, 4, 5, 6, 7, 8, 9, 10, 11]"

text \<open>
  A sample backend: on the filter text built from \<open>s\<close> it selects the rows whose nickname
  or name contains \<open>s\<close>. (It compares code points; on text in lower case this is the
  match that ignores case.)
\<close>

fun contains :: "ustr \<Rightarrow> ustr \<Rightarrow> bool" where
  "contains s [] = (s = [])"
| "contains s (x # xs) = (take (length s) (x # xs) = s \<or> contains s xs)"

definition sample_sel :: "ustr \<Rightarrow> ustr \<Rightarrow> user_row \<Rightarrow> bool" where
  "sample_sel s flt r =
     (flt = or_filter s \<and> (contains s (game_nick r) \<or> contains s (telegram_name r)))"



section \<open>Effects: basic facts\<close>

lemma raises_Nil [simp]: "\<not> raises [] i"
  by (simp add: raises_def)

lemma raises_Cons_0 [simp]: "raises (f # fs) 0 = f"
  by (simp add: raises_def)

lemma raises_Cons_Suc [simp]: "raises (f # fs) (Suc i) = raises fs i"
  by (simp add: raises_def)

lemma raises_tl [simp]: "raises (tl fs) i = raises fs (Suc i)"
  by (cases fs) simp_all

lemma execute_eq:
  "execute q w =
     (if raises (db_faults w) 0
      then (Inl Backend_error,
            w\<lparr>db_requests := Suc (db_requests w), db_faults := tl (db_faults w)\<rparr>)
      else (Inr (fst (q (users w))),
            w\<lparr>users := snd (q (users w)), db_requests := Suc (db_requests w),
              db_faults := tl (db_faults w)\<rparr>))"
  by (cases "db_faults w") (auto simp: execute_def Let_def split: prod.splits bool.splits)

lemma platform_eq:
  "platform c w =
     (if raises (api_faults w) 0 then Inl Telegram_error else Inr (),
      w\<lparr>calls := calls w @ [c], api_faults := tl (api_faults w)\<rparr>)"
  by (cases "api_faults w") (auto simp: platform_def Let_def split: bool.splits)

lemma get_user_nick_eq:
  "get_user_nick tid w =
     (if raises (db_faults w) 0
      then (Inr None,
            w\<lparr>db_requests := Suc (db_requests w), db_faults := tl (db_faults w),
              logged := logged w @ [(Error, Nick_lookup_failed Backend_error)]\<rparr>)
      else (Inr (case filter (eq_telegram_id tid) (users w) of
                   [] \<Rightarrow> None | r # _ \<Rightarrow> Some (game_nick r)),
            w\<lparr>db_requests := Suc (db_requests w), db_faults := tl (db_faults w)\<rparr>))"
  by (auto simp: get_user_nick_def get_user_nick_body_def try_except_def bind_io_def
      return_io_def logger_def execute_eq select_eq_def split: list.splits)


lemmas io_defs = return_io_def bind_io_def try_except_def logger_def datetime_now_def

section \<open>Nickname store\<close>

lemma save_user_nick_eq:
  "save_user_nick tid un nm nick w =
     (let w1 = w\<lparr>db_requests := Suc (db_requests w), db_faults := tl (db_faults w)\<rparr>;
          w2 = w1\<lparr>clock_reads := Suc (clock_reads w)\<rparr>;
          d = \<lparr>ud_telegram_id = tid, ud_telegram_username = un, ud_telegram_name = nm,
               ud_game_nick = nick, ud_updated_at = clock w (clock_reads w)\<rparr>
      in
      if raises (db_faults w) 0 then
        (Inr False, w1\<lparr>logged := logged w @ [(Error, Nick_save_failed Backend_error)]\<rparr>)
      else if filter (eq_telegram_id tid) (users w) \<noteq> [] then
        (if raises (db_faults w) 1 then
           (Inr False,
            w2\<lparr>db_requests := Suc (Suc (db_requests w)), db_faults := tl (tl (db_faults w)),
               logged := logged w @ [(Error, Nick_save_failed Backend_error)]\<rparr>)
         else
           (Inr True,
            w2\<lparr>users := snd (update_eq d tid (users w)),
               db_requests := Suc (Suc (db_requests w)), db_faults := tl (tl (db_faults w)),
               logged := logged w @ [(Info, Nick_updated tid nick)]\<rparr>))
      else
        (if raises (db_faults w) 1 then
           (Inr False,
            w2\<lparr>clock_reads := Suc (Suc (clock_reads w)),
               db_requests := Suc (Suc (db_requests w)), db_faults := tl (tl (db_faults w)),
               logged := logged w @ [(Error, Nick_save_failed Backend_error)]\<rparr>)
         else
           (Inr True,
            w2\<lparr>users := snd (insert_row d (clock w (Suc (clock_reads w))) (users w)),
               clock_reads := Suc (Suc (clock_reads w)),
               db_requests := Suc (Suc (db_requests w)), db_faults := tl (tl (db_faults w)),
               logged := logged w @ [(Info, User_added tid nick)]\<rparr>)))"
  by (simp add: save_user_nick_def save_user_nick_body_def io_defs execute_eq select_eq_def
      Let_def)

text \<open>
  What a successful \<open>save_user_nick\<close> writes for an identity with no row: exactly one
  row is added, with the identity, username, name and nickname given; its \<open>updated_at\<close>
  is the clock reading taken when \<open>user_data\<close> is built (source line 73) and its
  \<open>created_at\<close> is a second reading, taken afterwards (source line 85).
\<close>

lemma save_user_nick_new_identity:
  assumes "\<forall>r\<in>set (users w). telegram_id r \<noteq> tid"
      and "save_user_nick tid un nm nick w = (Inr True, w')"
  shows "users w' = users w @
           [\<lparr>telegram_id = tid, telegram_username = un, telegram_name = nm, game_nick = nick,
             created_at = clock w (Suc (clock_reads w)),
             updated_at = clock w (clock_reads w)\<rparr>]"
proof -
  have "filter (eq_telegram_id tid) (users w) = []"
    using assms(1) by (auto simp: eq_telegram_id_def filter_empty_conv)
  then show ?thesis
    using assms(2)
    by (auto simp: save_user_nick_eq insert_row_def Let_def split: if_splits)
qed

lemma save_user_nick_new_identity_example:
  "users world0 = []
   \<and> fst (save_user_nick 7 None (ascii ''Ann'') (ascii ''Hero'') world0) = Inr True
   \<and> users (snd (save_user_nick 7 None (ascii ''Ann'') (ascii ''Hero'') world0)) =
       [\<lparr>telegram_id = 7, telegram_username = None, telegram_name = ascii ''Ann'',
         game_nick = ascii ''Hero'', created_at = 1001, updated_at = 1000\<rparr>]"
proof -
  have new: "\<forall>r\<in>set (users world0). telegram_id r \<noteq> 7"
    by (simp add: world0_def)
  have ok: "fst (save_user_nick 7 None (ascii ''Ann'') (ascii ''Hero'') world0) = Inr True"
    by (simp add: save_user_nick_eq world0_def Let_def)
  then have run: "save_user_nick 7 None (ascii ''Ann'') (ascii ''Hero'') world0 =
      (Inr True, snd (save_user_nick 7 None (ascii ''Ann'') (ascii ''Hero'') world0))"
    by (metis prod.collapse)
  show ?thesis
    using new ok save_user_nick_new_identity [OF new run] by (simp add: world0_def)
qed

text \<open>
  With a clock that advances between the two readings, the row inserted for a new
  identity is created after it was last updated.
\<close>

lemma save_user_nick_new_identity_created_later:
  assumes "\<forall>r\<in>set (users w). telegram_id r \<noteq> tid"
      and "save_user_nick tid un nm nick w = (Inr True, w')"
      and "clock w (clock_reads w) < clock w (Suc (clock_reads w))"
  shows "updated_at (last (users w')) < created_at (last (users w'))"
  using save_user_nick_new_identity [OF assms(1,2)] assms(3) by simp

text \<open>
  Claim C1 (for a new identity, a successful save inserts exactly one record whose
  \<open>created_at\<close> equals its \<open>updated_at\<close>) at a failing input. The table is empty and
  the clock advances by one between readings. The save succeeds and inserts one row, but
  the row has \<open>created_at\<close> 1001 and \<open>updated_at\<close> 1000: the two fields are stamped
  from two readings of the clock instead of one.
\<close>

theorem save_user_nick_new_identity_two_readings:
  "fst (save_user_nick 7 None (ascii ''Ann'') (ascii ''Hero'') world0) = Inr True
   \<and> users world0 = []
   \<and> map created_at (users (snd (save_user_nick 7 None (ascii ''Ann'') (ascii ''Hero'') world0)))
       = [1001]
   \<and> map updated_at (users (snd (save_user_nick 7 None (ascii ''Ann'') (ascii ''Hero'') world0)))
       = [1000]"
  by (simp add: save_user_nick_eq world0_def Let_def insert_row_def)

text \<open>
  Claim C6. For an identity that has a row, a successful \<open>save_user_nick\<close> leaves the
  number of rows, and the number of rows of that identity, as they were; every row keeps
  its \<open>created_at\<close>; a row of that identity gets the new username, name, nickname and
  \<open>updated_at\<close> and is otherwise as before; every other row is unchanged.
\<close>

theorem save_user_nick_existing_identity:
  assumes "\<exists>r\<in>set (users w). telegram_id r = tid"
      and "save_user_nick tid un nm nick w = (Inr True, w')"
  shows "length (users w') = length (users w)
    \<and> length (filter (eq_telegram_id tid) (users w')) = length (filter (eq_telegram_id tid) (users w))
    \<and> (\<forall>i<length (users w).
         created_at (users w' ! i) = created_at (users w ! i)
         \<and> (if telegram_id (users w ! i) = tid
            then users w' ! i = (users w ! i)\<lparr>telegram_username := un, telegram_name := nm,
                   game_nick := nick, updated_at := clock w (clock_reads w)\<rparr>
            else users w' ! i = users w ! i))"
proof -
  let ?upd = "\<lambda>r. if telegram_id r = tid
      then r\<lparr>telegram_username := un, telegram_name := nm, game_nick := nick,
             updated_at := clock w (clock_reads w)\<rparr>
      else r"
  have "filter (eq_telegram_id tid) (users w) \<noteq> []"
    using assms(1) by (auto simp: eq_telegram_id_def filter_empty_conv)
  then have rows: "users w' = map ?upd (users w)"
    using assms(2)
    by (auto simp: save_user_nick_eq update_eq_def apply_user_data_def eq_telegram_id_def
        Let_def split: if_splits)
  have same: "eq_telegram_id tid (?upd r) = eq_telegram_id tid r" for r
    by (simp add: eq_telegram_id_def)
  have "filter (eq_telegram_id tid) (map ?upd (users w)) =
      map ?upd (filter (eq_telegram_id tid) (users w))"
    unfolding filter_map comp_def same ..
  then show ?thesis
    by (simp add: rows)
qed

theorem save_user_nick_existing_identity_witness:
  "(\<exists>r\<in>set (users (world0\<lparr>users := [zed_row, hero_row]\<rparr>)). telegram_id r = 7)
   \<and> fst (save_user_nick 7 None (ascii ''Anna'') (ascii ''Nova'')
            (world0\<lparr>users := [zed_row, hero_row]\<rparr>)) = Inr True
   \<and> users (snd (save_user_nick 7 None (ascii ''Anna'') (ascii ''Nova'')
            (world0\<lparr>users := [zed_row, hero_row]\<rparr>))) =
       [zed_row,
        \<lparr>telegram_id = 7, telegram_username = None, telegram_name = ascii ''Anna'',
         game_nick = ascii ''Nova'', created_at = 10, updated_at = 1000\<rparr>]"
proof -
  let ?w = "world0\<lparr>users := [zed_row, hero_row]\<rparr>"
  let ?run = "save_user_nick 7 None (ascii ''Anna'') (ascii ''Nova'') ?w"
  have ex: "\<exists>r\<in>set (users ?w). telegram_id r = 7"
    by (simp add: hero_row_def)
  have ok: "fst ?run = Inr True"
    by (simp add: save_user_nick_eq world0_def Let_def eq_telegram_id_def hero_row_def
        zed_row_def)
  then have run: "?run = (Inr True, snd ?run)"
    by (metis prod.collapse)
  note th = save_user_nick_existing_identity [OF ex run]
  have len: "length (users (snd ?run)) = 2"
    using th by simp
  have step: "if telegram_id (users ?w ! i) = 7
      then users (snd ?run) ! i = (users ?w ! i)\<lparr>telegram_username := None,
             telegram_name := ascii ''Anna'', game_nick := ascii ''Nova'',
             updated_at := clock ?w (clock_reads ?w)\<rparr>
      else users (snd ?run) ! i = users ?w ! i" if "i < 2" for i
    using th that by simp
  have r0: "users (snd ?run) ! 0 = zed_row"
    using step [of 0] by (simp add: world0_def hero_row_def zed_row_def)
  have r1: "users (snd ?run) ! 1 = hero_row\<lparr>telegram_username := None,
        telegram_name := ascii ''Anna'', game_nick := ascii ''Nova'', updated_at := 1000\<rparr>"
    using step [of 1] by (simp add: world0_def hero_row_def zed_row_def)
  have "users (snd ?run) = [users (snd ?run) ! 0, users (snd ?run) ! 1]"
    using len by (auto simp: list_eq_iff_nth_eq less_Suc_eq numeral_2_eq_2)
  then show ?thesis
    using ex ok r0 r1 by (simp add: hero_row_def)
qed


lemma get_stats_eq:
  "get_stats w =
     (if raises (db_faults w) 0 then
        (Inr \<lparr>total = 0, recent = []\<rparr>,
         w\<lparr>db_requests := Suc (db_requests w), db_faults := tl (db_faults w),
           logged := logged w @ [(Error, Stats_failed Backend_error)]\<rparr>)
      else if raises (db_faults w) 1 then
        (Inr \<lparr>total = 0, recent = []\<rparr>,
         w\<lparr>db_requests := Suc (Suc (db_requests w)), db_faults := tl (tl (db_faults w)),
           logged := logged w @ [(Error, Stats_failed Backend_error)]\<rparr>)
      else
        (Inr \<lparr>total = length (users w), recent = fst (select_recent (users w))\<rparr>,
         w\<lparr>db_requests := Suc (Suc (db_requests w)), db_faults := tl (tl (db_faults w))\<rparr>))"
  by (simp add: get_stats_def get_stats_body_def io_defs execute_eq select_count_def
      select_recent_def)

lemma search_nick_eq:
  "search_nick sel s w =
     (if raises (db_faults w) 0 then
        (Inr [],
         w\<lparr>db_requests := Suc (db_requests w), db_faults := tl (db_faults w),
           logged := logged w @ [(Error, Search_failed Backend_error)]\<rparr>)
      else
        (Inr (fst (select_or sel (or_filter s) (users w))),
         w\<lparr>db_requests := Suc (db_requests w), db_faults := tl (db_faults w)\<rparr>))"
  by (simp add: search_nick_def search_nick_body_def io_defs execute_eq select_or_def)

text \<open>
  Claim C5. No operation of the store raises: each returns a value in every world. When
  a backend request of the operation raises, \<open>get_user_nick\<close> returns \<open>None\<close>,
  \<open>save_user_nick\<close> returns \<open>False\<close>, \<open>get_stats\<close> returns total 0 with no recent rows and
  \<open>search_nick\<close> returns the empty list, and in each case one error line was added to
  the log. (\<open>get_user_nick\<close> and \<open>search_nick\<close> send one request, the other two send a
  second one when the first did not raise.)
\<close>

theorem store_operations_never_raise:
  "(\<exists>r w'. get_user_nick tid w = (Inr r, w'))
   \<and> (\<exists>r w'. save_user_nick tid un nm nick w = (Inr r, w'))
   \<and> (\<exists>r w'. get_stats w = (Inr r, w'))
   \<and> (\<exists>r w'. search_nick sel s w = (Inr r, w'))
   \<and> (raises (db_faults w) 0 \<longrightarrow>
        fst (get_user_nick tid w) = Inr None
        \<and> logged (snd (get_user_nick tid w)) =
            logged w @ [(Error, Nick_lookup_failed Backend_error)])
   \<and> (raises (db_faults w) 0 \<or> raises (db_faults w) 1 \<longrightarrow>
        fst (save_user_nick tid un nm nick w) = Inr False
        \<and> logged (snd (save_user_nick tid un nm nick w)) =
            logged w @ [(Error, Nick_save_failed Backend_error)])
   \<and> (raises (db_faults w) 0 \<or> raises (db_faults w) 1 \<longrightarrow>
        fst (get_stats w) = Inr \<lparr>total = 0, recent = []\<rparr>
        \<and> logged (snd (get_stats w)) = logged w @ [(Error, Stats_failed Backend_error)])
   \<and> (raises (db_faults w) 0 \<longrightarrow>
        fst (search_nick sel s w) = Inr []
        \<and> logged (snd (search_nick sel s w)) =
            logged w @ [(Error, Search_failed Backend_error)])"
proof -
  have "\<exists>r w'. get_user_nick tid w = (Inr r, w')"
    by (simp add: get_user_nick_eq)
  moreover have "\<exists>r w'. save_user_nick tid un nm nick w = (Inr r, w')"
    by (auto simp: save_user_nick_eq Let_def)
  moreover have "\<exists>r w'. get_stats w = (Inr r, w')"
    by (simp add: get_stats_eq)
  moreover have "\<exists>r w'. search_nick sel s w = (Inr r, w')"
    by (simp add: search_nick_eq)
  moreover have "fst (get_user_nick tid w) = Inr None
      \<and> logged (snd (get_user_nick tid w)) =
          logged w @ [(Error, Nick_lookup_failed Backend_error)]"
    if "raises (db_faults w) 0"
    using that by (simp add: get_user_nick_eq)
  moreover have "fst (save_user_nick tid un nm nick w) = Inr False
      \<and> logged (snd (save_user_nick tid un nm nick w)) =
          logged w @ [(Error, Nick_save_failed Backend_error)]"
    if "raises (db_faults w) 0 \<or> raises (db_faults w) 1"
    using that by (auto simp: save_user_nick_eq Let_def)
  moreover have "fst (get_stats w) = Inr \<lparr>total = 0, recent = []\<rparr>
      \<and> logged (snd (get_stats w)) = logged w @ [(Error, Stats_failed Backend_error)]"
    if "raises (db_faults w) 0 \<or> raises (db_faults w) 1"
    using that by (auto simp: get_stats_eq)
  moreover have "fst (search_nick sel s w) = Inr []
      \<and> logged (snd (search_nick sel s w)) =
          logged w @ [(Error, Search_failed Backend_error)]"
    if "raises (db_faults w) 0"
    using that by (simp add: search_nick_eq)
  ultimately show ?thesis
    by blast
qed

theorem store_operations_never_raise_witness:
  "raises (db_faults (world0\<lparr>users := [hero_row], db_faults := [True]\<rparr>)) 0
   \<and> fst (get_user_nick 7 (world0\<lparr>users := [hero_row], db_faults := [True]\<rparr>)) = Inr None
   \<and> fst (save_user_nick 7 None (ascii ''Ann'') (ascii ''Nova'')
        (world0\<lparr>users := [hero_row], db_faults := [True]\<rparr>)) = Inr False
   \<and> fst (get_stats (world0\<lparr>users := [hero_row], db_faults := [True]\<rparr>)) =
       Inr \<lparr>total = 0, recent = []\<rparr>
   \<and> fst (search_nick (\<lambda>flt r. True) (ascii ''her'')
        (world0\<lparr>users := [hero_row], db_faults := [True]\<rparr>)) = Inr []
   \<and> logged (snd (get_user_nick 7 (world0\<lparr>users := [hero_row], db_faults := [True]\<rparr>))) =
       [(Error, Nick_lookup_failed Backend_error)]
   \<and> logged (snd (save_user_nick 7 None (ascii ''Ann'') (ascii ''Nova'')
        (world0\<lparr>users := [hero_row], db_faults := [True]\<rparr>))) =
       [(Error, Nick_save_failed Backend_error)]
   \<and> logged (snd (get_stats (world0\<lparr>users := [hero_row], db_faults := [True]\<rparr>))) =
       [(Error, Stats_failed Backend_error)]
   \<and> logged (snd (search_nick (\<lambda>flt r. True) (ascii ''her'')
        (world0\<lparr>users := [hero_row], db_faults := [True]\<rparr>))) =
       [(Error, Search_failed Backend_error)]"
proof -
  let ?w = "world0\<lparr>users := [hero_row], db_faults := [True]\<rparr>"
  have h: "raises (db_faults ?w) 0"
    by simp
  have l: "logged ?w = []"
    by (simp add: world0_def)
  show ?thesis
    using h l
      store_operations_never_raise [of 7 ?w None "ascii ''Ann''" "ascii ''Nova''"
        "\<lambda>flt r. True" "ascii ''her''"]
    by simp
qed

section \<open>The command \<open>/nick\<close>\<close>

lemma reply_eq:
  "reply u txt pm w =
     (if raises (api_faults w) 0 then
        (Inl Telegram_error,
         w\<lparr>calls := calls w @ [Reply_text (update_message u) txt pm None],
           api_faults := tl (api_faults w)\<rparr>)
      else
        (Inr (),
         w\<lparr>calls := calls w @ [Reply_text (update_message u) txt pm None],
           api_faults := tl (api_faults w), next_message_id := next_message_id w + 1\<rparr>))"
  by (simp add: reply_def reply_text_def post_def io_defs platform_eq)

lemma replied_only_reply: "replied_only u txt pm w (snd (reply u txt pm w))"
  by (simp add: replied_only_def reply_eq)

lemma first_forbidden_None:
  "first_forbidden cs nick = None \<longleftrightarrow> (\<forall>c\<in>set cs. c \<notin> set nick)"
  by (induction cs) auto

lemma first_forbidden_first:
  assumes "k \<in> set nick" and "\<forall>e\<in>set pre. e \<notin> set nick"
  shows "first_forbidden (pre @ k # suf) nick = Some k"
  using assms by (induction pre) auto

lemma first_forbidden_Some:
  assumes "first_forbidden cs nick = Some k"
  shows "\<exists>pre suf. cs = pre @ k # suf \<and> k \<in> set nick \<and> (\<forall>e\<in>set pre. e \<notin> set nick)"
  using assms
proof (induction cs)
  case Nil
  then show ?case by simp
next
  case (Cons c cs)
  show ?case
  proof (cases "c \<in> set nick")
    case True
    with Cons.prems have "c = k" by simp
    with True have "c # cs = [] @ k # cs \<and> k \<in> set nick \<and> (\<forall>e\<in>set []. e \<notin> set nick)"
      by simp
    then show ?thesis by blast
  next
    case False
    with Cons.prems have "first_forbidden cs nick = Some k" by simp
    from Cons.IH [OF this] obtain pre suf
      where "cs = pre @ k # suf" "k \<in> set nick" "\<forall>e\<in>set pre. e \<notin> set nick"
      by blast
    with False have "c # cs = (c # pre) @ k # suf \<and> k \<in> set nick
        \<and> (\<forall>e\<in>set (c # pre). e \<notin> set nick)"
      by simp
    then show ?thesis by blast
  qed
qed

lemma strip_join_Nil: "strip (join_space []) = []"
  by (simp add: strip_def)

lemma strip_no_space:
  assumes "xs \<noteq> []" and "\<not> isspace (hd xs)" and "\<not> isspace (last xs)"
  shows "strip xs = xs"
proof -
  have "dropWhile isspace xs = xs"
    using assms(2) by (simp add: dropWhile_eq_self_iff)
  moreover have "dropWhile isspace (rev xs) = rev xs"
    using assms(1,3) by (simp add: dropWhile_eq_self_iff hd_rev)
  ultimately show ?thesis
    by (simp add: strip_def)
qed

lemma nick_command_candidate:
  assumes "args \<noteq> []"
  shows "nick_command u args w =
     (let nick = strip (join_space args) in
      if length nick < 2 then reply u msg_too_short None w
      else if length nick > 32 then reply u msg_too_long None w
      else
        case first_forbidden forbidden_chars nick of
          Some char \<Rightarrow> reply u (msg_forbidden char) None w
        | None \<Rightarrow>
            bind_io (save_user_nick (user_id (effective_user u)) (username (effective_user u))
                (first_name (effective_user u)) nick)
              (\<lambda>success.
                 if success then
                   bind_io get_stats (\<lambda>stats.
                     reply u (msg_saved (first_name (effective_user u)) nick (total stats))
                       (Some Markdown))
                 else
                   reply u msg_save_failed None) w)"
  using assms by (simp add: nick_command_def Let_def split: option.splits)

text \<open>
  Claim C4. Take a \<open>/nick\<close> invocation with arguments, and let the candidate nickname be
  the arguments joined with spaces and trimmed. If the candidate is shorter than 2, the
  handler replies with the too-short message; if it is longer than 32, with the too-long
  message; if its length is in range and it contains a forbidden character, with the
  message that names a forbidden character it contains. In each case that reply is the one
  platform call made, and the store is not touched: no request is sent, the table, the
  clock readings and the log are unchanged.
\<close>

theorem nick_command_rejects_invalid:
  assumes "args \<noteq> []" and "nick = strip (join_space args)"
  shows "(length nick < 2 \<longrightarrow>
            replied_only u msg_too_short None w (snd (nick_command u args w)))
    \<and> (32 < length nick \<longrightarrow>
            replied_only u msg_too_long None w (snd (nick_command u args w)))
    \<and> (2 \<le> length nick \<and> length nick \<le> 32 \<and> (\<exists>c\<in>set forbidden_chars. c \<in> set nick) \<longrightarrow>
          (\<exists>c\<in>set forbidden_chars. c \<in> set nick
             \<and> replied_only u (msg_forbidden c) None w (snd (nick_command u args w))))"
proof (intro conjI impI)
  assume "length nick < 2"
  then show "replied_only u msg_too_short None w (snd (nick_command u args w))"
    using assms by (simp add: nick_command_candidate replied_only_reply)
next
  assume "32 < length nick"
  then show "replied_only u msg_too_long None w (snd (nick_command u args w))"
    using assms by (simp add: nick_command_candidate replied_only_reply)
next
  assume a: "2 \<le> length nick \<and> length nick \<le> 32 \<and> (\<exists>c\<in>set forbidden_chars. c \<in> set nick)"
  then have "first_forbidden forbidden_chars nick \<noteq> None"
    by (simp add: first_forbidden_None)
  then obtain k where k: "first_forbidden forbidden_chars nick = Some k"
    by blast
  from first_forbidden_Some [OF k] obtain pre suf
    where dec: "forbidden_chars = pre @ k # suf" and "k \<in> set nick"
    by blast
  moreover have "k \<in> set forbidden_chars"
    by (simp add: dec)
  moreover have "replied_only u (msg_forbidden k) None w (snd (nick_command u args w))"
    using assms a k by (simp add: nick_command_candidate replied_only_reply)
  ultimately show "\<exists>c\<in>set forbidden_chars. c \<in> set nick
      \<and> replied_only u (msg_forbidden c) None w (snd (nick_command u args w))"
    by blast
qed

theorem nick_command_rejects_invalid_witness:
  "replied_only private_update msg_too_short None world0
     (snd (nick_command private_update [ascii ''a''] world0))
   \<and> replied_only private_update msg_too_long None world0
     (snd (nick_command private_update [replicate 33 97] world0))
   \<and> replied_only private_update (msg_forbidden 60) None world0
     (snd (nick_command private_update [ascii ''a<b''] world0))"
proof -
  have a1: "strip (join_space [ascii ''a'']) = [97]"
    by (simp add: strip_def isspace_def ascii_def)
  have a2: "strip (join_space [replicate 33 97]) = replicate 33 97"
    by (simp add: strip_no_space isspace_def)
  have a3: "strip (join_space [ascii ''a<b'']) = [97, 60, 98]"
    by (simp add: strip_def isspace_def ascii_def)
  have "replied_only private_update msg_too_short None world0
     (snd (nick_command private_update [ascii ''a''] world0))"
    using nick_command_rejects_invalid [of "[ascii ''a'']" "[97]" private_update world0] a1
    by simp
  moreover have "replied_only private_update msg_too_long None world0
     (snd (nick_command private_update [replicate 33 97] world0))"
    using nick_command_rejects_invalid
      [of "[replicate 33 97]" "replicate 33 97" private_update world0] a2
    by simp
  moreover have "replied_only private_update (msg_forbidden 60) None world0
     (snd (nick_command private_update [ascii ''a<b''] world0))"
    using nick_command_rejects_invalid
      [of "[ascii ''a<b'']" "[97, 60, 98]" private_update world0] a3
    by (simp add: forbidden_chars_def)
  ultimately show ?thesis
    by blast
qed

lemma length_msg_neq_forbidden:
  "msg_too_short \<noteq> msg_forbidden c" "msg_too_long \<noteq> msg_forbidden c"
  by (simp_all add: msg_too_short_def msg_too_long_def msg_forbidden_def)

text \<open>
  Claim C9. The length checks come before the check for forbidden characters: when the
  candidate nickname is shorter than 2 or longer than 32 and also contains a forbidden
  character, the one reply is the too-short message (length below 2) or the too-long
  message (length above 32), which is not the forbidden-character message for any
  character, and the store is not touched.
\<close>

theorem nick_command_length_check_first:
  assumes "nick = strip (join_space args)"
      and "length nick < 2 \<or> 32 < length nick"
      and "\<exists>c\<in>set forbidden_chars. c \<in> set nick"
  shows "replied_only u (if length nick < 2 then msg_too_short else msg_too_long) None w
           (snd (nick_command u args w))
    \<and> (\<forall>c. (if length nick < 2 then msg_too_short else msg_too_long) \<noteq> msg_forbidden c)"
proof -
  have "nick \<noteq> []"
    using assms(3) by auto
  then have args: "args \<noteq> []"
    using assms(1) strip_join_Nil by auto
  have "replied_only u (if length nick < 2 then msg_too_short else msg_too_long) None w
      (snd (nick_command u args w))"
    using assms(1,2) by (auto simp: nick_command_candidate [OF args] replied_only_reply)
  then show ?thesis
    by (simp add: length_msg_neq_forbidden)
qed

theorem nick_command_length_check_first_witness:
  "replied_only private_update msg_too_short None world0
     (snd (nick_command private_update [ascii ''<''] world0))
   \<and> replied_only private_update msg_too_long None world0
     (snd (nick_command private_update [replicate 40 60] world0))
   \<and> msg_too_short \<noteq> msg_forbidden 60 \<and> msg_too_long \<noteq> msg_forbidden 60"
proof -
  have a1: "strip (join_space [ascii ''<'']) = [60]"
    by (simp add: strip_def isspace_def ascii_def)
  have a2: "strip (join_space [replicate 40 60]) = replicate 40 60"
    by (simp add: strip_no_space isspace_def)
  have f: "\<exists>c\<in>set forbidden_chars. c \<in> set [60]"
    "\<exists>c\<in>set forbidden_chars. c \<in> set (replicate 40 60)"
    by (simp_all add: forbidden_chars_def)
  have "replied_only private_update msg_too_short None world0
      (snd (nick_command private_update [ascii ''<''] world0))
    \<and> msg_too_short \<noteq> msg_forbidden 60"
    using nick_command_length_check_first
      [of "[60]" "[ascii ''<'']" private_update world0] a1 f(1)
    by simp
  moreover have "replied_only private_update msg_too_long None world0
      (snd (nick_command private_update [replicate 40 60] world0))
    \<and> msg_too_long \<noteq> msg_forbidden 60"
    using nick_command_length_check_first
      [of "replicate 40 60" "[replicate 40 60]" private_update world0] a2 f(2)
    by simp
  ultimately show ?thesis
    by blast
qed

text \<open>
  Claim C10. When the candidate nickname passes the length checks and contains forbidden
  characters, the check order (less-than, greater-than, ampersand, double quote, single
  quote, backquote, backslash) has a first character that occurs in the nickname, and
  the one reply names that character, whatever the positions of the forbidden characters
  in the nickname are. The store is not touched.
\<close>

theorem nick_command_names_first_in_check_order:
  assumes "nick = strip (join_space args)"
      and "2 \<le> length nick" and "length nick \<le> 32"
      and "\<exists>c\<in>set forbidden_chars. c \<in> set nick"
  shows "(\<exists>k pre suf. [60, 62, 38, 34, 39, 96, 92] = pre @ k # suf \<and> k \<in> set nick
            \<and> (\<forall>e\<in>set pre. e \<notin> set nick))
    \<and> (\<forall>k pre suf. [60, 62, 38, 34, 39, 96, 92] = pre @ k # suf \<and> k \<in> set nick
            \<and> (\<forall>e\<in>set pre. e \<notin> set nick) \<longrightarrow>
          replied_only u (msg_forbidden k) None w (snd (nick_command u args w)))"
proof -
  have "nick \<noteq> []"
    using assms(4) by auto
  then have args: "args \<noteq> []"
    using assms(1) strip_join_Nil by auto
  have "first_forbidden forbidden_chars nick \<noteq> None"
    using assms(4) by (simp add: first_forbidden_None)
  then obtain k0 where "first_forbidden forbidden_chars nick = Some k0"
    by blast
  from first_forbidden_Some [OF this]
  have ex: "\<exists>k pre suf. [60, 62, 38, 34, 39, 96, 92] = pre @ k # suf \<and> k \<in> set nick
      \<and> (\<forall>e\<in>set pre. e \<notin> set nick)"
    unfolding forbidden_chars_def by blast
  have "replied_only u (msg_forbidden k) None w (snd (nick_command u args w))"
    if "[60, 62, 38, 34, 39, 96, 92] = pre @ k # suf" and "k \<in> set nick"
      and "\<forall>e\<in>set pre. e \<notin> set nick" for k pre suf
  proof -
    have "first_forbidden forbidden_chars nick = Some k"
      using first_forbidden_first [OF that(2,3), of suf] that(1)
      by (simp add: forbidden_chars_def)
    then show ?thesis
      using assms(1,2,3) by (simp add: nick_command_candidate [OF args] replied_only_reply)
  qed
  with ex show ?thesis
    by blast
qed

theorem nick_command_names_first_in_check_order_witness:
  "strip (join_space [ascii ''>a<'']) = [62, 97, 60]
   \<and> replied_only private_update (msg_forbidden 60) None world0
     (snd (nick_command private_update [ascii ''>a<''] world0))
   \<and> msg_forbidden 60 \<noteq> msg_forbidden 62"
proof -
  have a: "strip (join_space [ascii ''>a<'']) = [62, 97, 60]"
    by (simp add: strip_def isspace_def ascii_def)
  have f: "\<exists>c\<in>set forbidden_chars. c \<in> set [62, 97, 60]"
    by (simp add: forbidden_chars_def)
  have len: "2 \<le> length [62, 97, 60::nat]" "length [62, 97, 60::nat] \<le> 32"
    by simp_all
  note th = nick_command_names_first_in_check_order
    [where nick = "[62, 97, 60]" and args = "[ascii ''>a<'']" and u = private_update
       and w = world0, OF a [symmetric] len f, THEN conjunct2, rule_format,
     where k = 60 and pre = "[]" and suf = "[62, 38, 34, 39, 96, 92]"]
  have "replied_only private_update (msg_forbidden 60) None world0
      (snd (nick_command private_update [ascii ''>a<''] world0))"
    by (rule th) simp
  then show ?thesis
    using a by (simp add: msg_forbidden_def)
qed

section \<open>The group relay\<close>

lemma get_user_nick_platform:
  "calls (snd (get_user_nick tid w)) = calls w"
  "api_faults (snd (get_user_nick tid w)) = api_faults w"
  "next_message_id (snd (get_user_nick tid w)) = next_message_id w"
  by (simp_all add: get_user_nick_eq)

lemma get_user_nick_no_row:
  assumes "\<forall>r\<in>set (users w). telegram_id r \<noteq> tid"
  shows "fst (get_user_nick tid w) = Inr None"
proof -
  have "filter (eq_telegram_id tid) (users w) = []"
    using assms by (auto simp: eq_telegram_id_def filter_empty_conv)
  then show ?thesis
    by (simp add: get_user_nick_eq)
qed

lemma send_message_eq:
  "send_message chat txt pm w =
     (if raises (api_faults w) 0 then
        (Inl Telegram_error,
         w\<lparr>calls := calls w @ [Send_message chat txt pm], api_faults := tl (api_faults w)\<rparr>)
      else
        (Inr \<lparr>msg_chat_id = chat, msg_id = next_message_id w\<rparr>,
         w\<lparr>calls := calls w @ [Send_message chat txt pm], api_faults := tl (api_faults w),
           next_message_id := next_message_id w + 1\<rparr>))"
  by (simp add: send_message_def post_def io_defs platform_eq)

lemma reply_text_eq:
  "reply_text m txt pm rt w =
     (if raises (api_faults w) 0 then
        (Inl Telegram_error,
         w\<lparr>calls := calls w @ [Reply_text m txt pm rt], api_faults := tl (api_faults w)\<rparr>)
      else
        (Inr \<lparr>msg_chat_id = msg_chat_id m, msg_id = next_message_id w\<rparr>,
         w\<lparr>calls := calls w @ [Reply_text m txt pm rt], api_faults := tl (api_faults w),
           next_message_id := next_message_id w + 1\<rparr>))"
  by (simp add: reply_text_def post_def io_defs platform_eq)

text \<open>The branch of the handler for a sender whose nickname was found.\<close>

lemma handle_group_message_relay:
  assumes "chat_type u = Group \<or> chat_type u = Supergroup"
      and "msg_text u = Some t" and "\<not> startswith_slash t"
      and "get_user_nick (user_id (effective_user u)) w = (Inr (Some nick), w1)"
      and "nick \<noteq> []"
  shows "handle_group_message u w =
     (let sent = \<lparr>msg_chat_id = effective_chat_id u, msg_id = next_message_id w1\<rparr>;
          c = Send_message (effective_chat_id u) (msg_relay nick t) (Some Markdown);
          d = Delete_message (update_message u)
      in
      if raises (api_faults w1) 0 then
        (Inl Telegram_error,
         w1\<lparr>calls := calls w1 @ [c], api_faults := tl (api_faults w1)\<rparr>)
      else if \<not> raises (api_faults w1) 1 then
        (Inr (),
         w1\<lparr>calls := calls w1 @ [c, d], api_faults := tl (tl (api_faults w1)),
            next_message_id := next_message_id w1 + 1\<rparr>)
      else
        (Inr (),
         w1\<lparr>calls := calls w1 @ [c, d, Delete_message sent],
            api_faults := tl (tl (tl (api_faults w1))),
            next_message_id := next_message_id w1 + 1,
            logged := logged w1 @ [(Warning, Delete_failed (message_id u) Telegram_error)]\<rparr>))"
  using assms
  by (auto simp: handle_group_message_def Let_def truthy_def bind_io_def try_except_def
      return_io_def logger_def send_message_eq delete_message_def platform_eq)

text \<open>The branch of the handler for a sender whose nickname was not found.\<close>

lemma handle_group_message_reminder:
  assumes "chat_type u = Group \<or> chat_type u = Supergroup"
      and "msg_text u = Some t" and "\<not> startswith_slash t"
      and "get_user_nick (user_id (effective_user u)) w = (Inr None, w1)"
  shows "handle_group_message u w =
     (let reminder = \<lparr>msg_chat_id = effective_chat_id u, msg_id = next_message_id w1\<rparr>;
          c = Reply_text (update_message u) (msg_reminder (first_name (effective_user u)))
                (Some Markdown) (Some (message_id u));
          err = (Error, Reminder_failed Telegram_error)
      in
      if raises (api_faults w1) 0 then
        (Inr (),
         w1\<lparr>calls := calls w1 @ [c], api_faults := tl (api_faults w1),
            logged := logged w1 @ [err]\<rparr>)
      else if raises (api_faults w1) 1 then
        (Inr (),
         w1\<lparr>calls := calls w1 @ [c, Sleep 15, Delete_message reminder],
            api_faults := tl (tl (api_faults w1)),
            next_message_id := next_message_id w1 + 1,
            logged := logged w1 @ [err]\<rparr>)
      else
        (Inr (),
         w1\<lparr>calls := calls w1 @ [c, Sleep 15, Delete_message reminder],
            api_faults := tl (tl (api_faults w1)),
            next_message_id := next_message_id w1 + 1\<rparr>))"
  using assms
  by (auto simp: handle_group_message_def Let_def truthy_def bind_io_def try_except_def
      return_io_def logger_def reply_text_eq delete_message_def platform_eq asyncio_sleep_def
      update_message_def)

text \<open>The same branch, taken when the stored nickname is the empty string.\<close>

lemma handle_group_message_reminder_empty:
  assumes "chat_type u = Group \<or> chat_type u = Supergroup"
      and "msg_text u = Some t" and "\<not> startswith_slash t"
      and "get_user_nick (user_id (effective_user u)) w = (Inr (Some []), w1)"
      and "\<not> raises (api_faults w1) 0" and "\<not> raises (api_faults w1) 1"
  shows "calls (snd (handle_group_message u w)) =
     calls w1 @
       [Reply_text (update_message u) (msg_reminder (first_name (effective_user u)))
          (Some Markdown) (Some (message_id u)),
        Sleep 15,
        Delete_message \<lparr>msg_chat_id = effective_chat_id u, msg_id = next_message_id w1\<rparr>]"
  using assms
  by (auto simp: handle_group_message_def Let_def truthy_def bind_io_def try_except_def
      return_io_def logger_def reply_text_eq delete_message_def platform_eq asyncio_sleep_def
      update_message_def)

text \<open>
  Claim C2 as stated fails, in four ways. With the nickname \<open>Hero\<close>, the text \<open>hi\<close> and
  no failure anywhere, the one message posted has the text \<open>**\<close>, the game-pad sign, a
  space, \<open>Hero:** hi\<close>, which is not \<open>Hero: hi\<close>. When the lookup request raises, the
  sender with the nickname \<open>Hero\<close> gets the reminder and nothing is relayed. When the
  stored nickname is the empty string, the sender gets the reminder too. When the post
  raises, the handler raises and no deletion is attempted.
\<close>

theorem handle_group_message_relay_counterexample:
  "calls (snd (handle_group_message group_update (world0\<lparr>users := [hero_row]\<rparr>))) =
       [Send_message (- 100)
          [42, 42, 127918, 32, 72, 101, 114, 111, 58, 42, 42, 32, 104, 105] (Some Markdown),
        Delete_message \<lparr>msg_chat_id = - 100, msg_id = 41\<rparr>]
   \<and> [42, 42, 127918, 32, 72, 101, 114, 111, 58, 42, 42, 32, 104, 105] \<noteq> ascii ''Hero: hi''
   \<and> calls (snd (handle_group_message group_update
         (world0\<lparr>users := [hero_row], db_faults := [True]\<rparr>))) =
       [Reply_text \<lparr>msg_chat_id = - 100, msg_id = 41\<rparr> (msg_reminder (ascii ''Ann''))
          (Some Markdown) (Some 41),
        Sleep 15,
        Delete_message \<lparr>msg_chat_id = - 100, msg_id = 500\<rparr>]
   \<and> calls (snd (handle_group_message group_update
         (world0\<lparr>users := [hero_row\<lparr>game_nick := []\<rparr>]\<rparr>))) =
       [Reply_text \<lparr>msg_chat_id = - 100, msg_id = 41\<rparr> (msg_reminder (ascii ''Ann''))
          (Some Markdown) (Some 41),
        Sleep 15,
        Delete_message \<lparr>msg_chat_id = - 100, msg_id = 500\<rparr>]
   \<and> handle_group_message group_update (world0\<lparr>users := [hero_row], api_faults := [True]\<rparr>) =
       (Inl Telegram_error,
        world0\<lparr>users := [hero_row], db_requests := 1,
          calls := [Send_message (- 100)
                      [42, 42, 127918, 32, 72, 101, 114, 111, 58, 42, 42, 32, 104, 105]
                      (Some Markdown)]\<rparr>)"
proof -
  have t: "msg_text group_update = Some (ascii ''hi'')"
    "chat_type group_update = Group \<or> chat_type group_update = Supergroup"
    "\<not> startswith_slash (ascii ''hi'')" "ascii ''Hero'' \<noteq> []"
    by (simp_all add: group_update_def startswith_slash_def ascii_def)
  have u: "effective_chat_id group_update = - 100" "message_id group_update = 41"
    "update_message group_update = \<lparr>msg_chat_id = - 100, msg_id = 41\<rparr>"
    "first_name (effective_user group_update) = ascii ''Ann''"
    by (simp_all add: group_update_def update_message_def ann_def)
  have relay: "msg_relay (ascii ''Hero'') (ascii ''hi'') =
      [42, 42, 127918, 32, 72, 101, 114, 111, 58, 42, 42, 32, 104, 105]"
    by (simp add: msg_relay_def ascii_def)
  let ?w = "world0\<lparr>users := [hero_row]\<rparr>"
  have g: "get_user_nick (user_id (effective_user group_update)) ?w =
      (Inr (Some (ascii ''Hero'')),
       ?w\<lparr>db_requests := Suc (db_requests ?w), db_faults := tl (db_faults ?w)\<rparr>)"
    by (simp add: get_user_nick_eq world0_def hero_row_def group_update_def ann_def
        eq_telegram_id_def)
  have c1: "calls (snd (handle_group_message group_update ?w)) =
       [Send_message (- 100)
          [42, 42, 127918, 32, 72, 101, 114, 111, 58, 42, 42, 32, 104, 105] (Some Markdown),
        Delete_message \<lparr>msg_chat_id = - 100, msg_id = 41\<rparr>]"
    by (simp add: handle_group_message_relay [OF t(2) t(1) t(3) g t(4)] Let_def u relay)
      (simp add: world0_def)
  have c2: "[42, 42, 127918, 32, 72, 101, 114, 111, 58, 42, 42, 32, 104, 105] \<noteq>
      ascii ''Hero: hi''"
    by (simp add: ascii_def)
  let ?wf = "world0\<lparr>users := [hero_row], db_faults := [True]\<rparr>"
  have gf: "get_user_nick (user_id (effective_user group_update)) ?wf =
      (Inr None,
       ?wf\<lparr>db_requests := Suc (db_requests ?wf), db_faults := tl (db_faults ?wf),
           logged := logged ?wf @ [(Error, Nick_lookup_failed Backend_error)]\<rparr>)"
    by (simp add: get_user_nick_eq)
  have c3: "calls (snd (handle_group_message group_update ?wf)) =
       [Reply_text \<lparr>msg_chat_id = - 100, msg_id = 41\<rparr> (msg_reminder (ascii ''Ann''))
          (Some Markdown) (Some 41),
        Sleep 15,
        Delete_message \<lparr>msg_chat_id = - 100, msg_id = 500\<rparr>]"
    by (simp add: handle_group_message_reminder [OF t(2) t(1) t(3) gf] Let_def u)
      (simp add: world0_def)
  let ?we = "world0\<lparr>users := [hero_row\<lparr>game_nick := []\<rparr>]\<rparr>"
  have ge: "get_user_nick (user_id (effective_user group_update)) ?we =
      (Inr (Some []),
       ?we\<lparr>db_requests := Suc (db_requests ?we), db_faults := tl (db_faults ?we)\<rparr>)"
    by (simp add: get_user_nick_eq world0_def hero_row_def group_update_def ann_def
        eq_telegram_id_def)
  have c4: "calls (snd (handle_group_message group_update ?we)) =
       [Reply_text \<lparr>msg_chat_id = - 100, msg_id = 41\<rparr> (msg_reminder (ascii ''Ann''))
          (Some Markdown) (Some 41),
        Sleep 15,
        Delete_message \<lparr>msg_chat_id = - 100, msg_id = 500\<rparr>]"
    by (subst handle_group_message_reminder_empty [OF t(2) t(1) t(3) ge])
      (simp_all add: world0_def u)
  let ?wp = "world0\<lparr>users := [hero_row], api_faults := [True]\<rparr>"
  have gp: "get_user_nick (user_id (effective_user group_update)) ?wp =
      (Inr (Some (ascii ''Hero'')),
       ?wp\<lparr>db_requests := Suc (db_requests ?wp), db_faults := tl (db_faults ?wp)\<rparr>)"
    by (simp add: get_user_nick_eq world0_def hero_row_def group_update_def ann_def
        eq_telegram_id_def)
  have c5: "handle_group_message group_update ?wp =
       (Inl Telegram_error,
        world0\<lparr>users := [hero_row], db_requests := 1,
          calls := [Send_message (- 100)
                      [42, 42, 127918, 32, 72, 101, 114, 111, 58, 42, 42, 32, 104, 105]
                      (Some Markdown)]\<rparr>)"
    by (simp add: handle_group_message_relay [OF t(2) t(1) t(3) gp t(4)] Let_def u relay)
      (simp add: world0_def)
  from c1 c2 c3 c4 c5 show ?thesis
    by blast
qed

text \<open>
  Claim C2, as amended. For a group-chat text message that is not a command, from a
  sender for whom the store lookup returns a nickname that is not empty, the handler posts
  exactly one new message: its first call is a \<open>send_message\<close> to the same chat, in
  Markdown mode, with the text: two asterisks, the game-pad sign, a space, the nickname,
  a colon, two asterisks, a space and the original text. When that post raises, there is
  no further call. Otherwise the next call is the deletion of the original message, and
  the only call that can follow is the deletion of the posted message, made when the
  deletion of the original raised.
\<close>

theorem handle_group_message_relays:
  assumes "chat_type u = Group \<or> chat_type u = Supergroup"
      and "msg_text u = Some t" and "\<not> startswith_slash t"
      and "fst (get_user_nick (user_id (effective_user u)) w) = Inr (Some nick)"
      and "nick \<noteq> []"
  shows "calls (snd (handle_group_message u w)) =
           calls w @
             Send_message (effective_chat_id u)
               ([42, 42, 127918, 32] @ nick @ [58, 42, 42, 32] @ t) (Some Markdown)
             # (if raises (api_faults w) 0 then []
                else if raises (api_faults w) 1 then
                  [Delete_message (update_message u),
                   Delete_message
                     \<lparr>msg_chat_id = effective_chat_id u, msg_id = next_message_id w\<rparr>]
                else [Delete_message (update_message u)])"
proof -
  let ?g = "get_user_nick (user_id (effective_user u)) w"
  have g: "?g = (Inr (Some nick), snd ?g)"
    using assms(4) by (metis prod.collapse)
  show ?thesis
    by (simp add: handle_group_message_relay [OF assms(1,2,3) g assms(5)] Let_def
        get_user_nick_platform msg_relay_def)
qed

theorem handle_group_message_relays_witness:
  "fst (get_user_nick 7 (world0\<lparr>users := [hero_row]\<rparr>)) = Inr (Some (ascii ''Hero''))
   \<and> calls (snd (handle_group_message group_update (world0\<lparr>users := [hero_row]\<rparr>))) =
       [Send_message (- 100)
          ([42, 42, 127918, 32] @ ascii ''Hero'' @ [58, 42, 42, 32] @ ascii ''hi'')
          (Some Markdown),
        Delete_message \<lparr>msg_chat_id = - 100, msg_id = 41\<rparr>]"
proof -
  let ?w = "world0\<lparr>users := [hero_row]\<rparr>"
  have g: "fst (get_user_nick (user_id (effective_user group_update)) ?w) =
      Inr (Some (ascii ''Hero''))"
    by (simp add: get_user_nick_eq world0_def hero_row_def group_update_def ann_def
        eq_telegram_id_def)
  have t: "chat_type group_update = Group \<or> chat_type group_update = Supergroup"
    "msg_text group_update = Some (ascii ''hi'')"
    "\<not> startswith_slash (ascii ''hi'')" "ascii ''Hero'' \<noteq> []"
    by (simp_all add: group_update_def startswith_slash_def ascii_def)
  have f: "\<not> raises (api_faults ?w) 0" "\<not> raises (api_faults ?w) 1" "calls ?w = []"
    by (simp_all add: world0_def)
  have u: "effective_chat_id group_update = - 100"
    "update_message group_update = \<lparr>msg_chat_id = - 100, msg_id = 41\<rparr>"
    "user_id (effective_user group_update) = 7"
    by (simp_all add: group_update_def update_message_def ann_def)
  show ?thesis
    using handle_group_message_relays [OF t(1) t(2) t(3) g t(4)] g f u
    by simp
qed

text \<open>
  Claim C7. In the relay, when the post succeeded and the deletion of the original message
  raises, the handler adds one warning to the log and then makes exactly one more call,
  the deletion of the message it has just posted; it makes no further call and adds no
  further log line, and it returns without raising, whether that second deletion raises
  or not.
\<close>

theorem handle_group_message_compensates:
  assumes "chat_type u = Group \<or> chat_type u = Supergroup"
      and "msg_text u = Some t" and "\<not> startswith_slash t"
      and "fst (get_user_nick (user_id (effective_user u)) w) = Inr (Some nick)"
      and "nick \<noteq> []"
      and "\<not> raises (api_faults w) 0" and "raises (api_faults w) 1"
  shows "fst (handle_group_message u w) = Inr ()
    \<and> calls (snd (handle_group_message u w)) =
        calls w @
          [Send_message (effective_chat_id u) (msg_relay nick t) (Some Markdown),
           Delete_message (update_message u),
           Delete_message \<lparr>msg_chat_id = effective_chat_id u, msg_id = next_message_id w\<rparr>]
    \<and> logged (snd (handle_group_message u w)) =
        logged (snd (get_user_nick (user_id (effective_user u)) w))
          @ [(Warning, Delete_failed (message_id u) Telegram_error)]"
proof -
  let ?g = "get_user_nick (user_id (effective_user u)) w"
  have g: "?g = (Inr (Some nick), snd ?g)"
    using assms(4) by (metis prod.collapse)
  show ?thesis
    using assms(6,7)
    by (simp add: handle_group_message_relay [OF assms(1,2,3) g assms(5)] Let_def
        get_user_nick_platform)
qed

theorem handle_group_message_compensates_witness:
  "raises (api_faults (world0\<lparr>users := [hero_row], api_faults := [False, True, True]\<rparr>)) 2
   \<and> fst (handle_group_message group_update
        (world0\<lparr>users := [hero_row], api_faults := [False, True, True]\<rparr>)) = Inr ()
   \<and> calls (snd (handle_group_message group_update
        (world0\<lparr>users := [hero_row], api_faults := [False, True, True]\<rparr>))) =
       [Send_message (- 100) (msg_relay (ascii ''Hero'') (ascii ''hi'')) (Some Markdown),
        Delete_message \<lparr>msg_chat_id = - 100, msg_id = 41\<rparr>,
        Delete_message \<lparr>msg_chat_id = - 100, msg_id = 500\<rparr>]
   \<and> logged (snd (handle_group_message group_update
        (world0\<lparr>users := [hero_row], api_faults := [False, True, True]\<rparr>))) =
       [(Warning, Delete_failed 41 Telegram_error)]"
proof -
  let ?w = "world0\<lparr>users := [hero_row], api_faults := [False, True, True]\<rparr>"
  have g: "fst (get_user_nick (user_id (effective_user group_update)) ?w) =
      Inr (Some (ascii ''Hero''))"
    and l: "logged (snd (get_user_nick (user_id (effective_user group_update)) ?w)) = []"
    by (simp_all add: get_user_nick_eq world0_def hero_row_def group_update_def ann_def
        eq_telegram_id_def)
  have t: "chat_type group_update = Group \<or> chat_type group_update = Supergroup"
    "msg_text group_update = Some (ascii ''hi'')"
    "\<not> startswith_slash (ascii ''hi'')" "ascii ''Hero'' \<noteq> []"
    by (simp_all add: group_update_def startswith_slash_def ascii_def)
  have f: "\<not> raises (api_faults ?w) 0" "raises (api_faults ?w) 1" "raises (api_faults ?w) 2"
    by (simp_all add: raises_def)
  have u: "effective_chat_id group_update = - 100" "message_id group_update = 41"
    "update_message group_update = \<lparr>msg_chat_id = - 100, msg_id = 41\<rparr>"
    "calls ?w = []" "next_message_id ?w = 500"
    by (simp_all add: group_update_def update_message_def world0_def)
  show ?thesis
    using handle_group_message_compensates [OF t(1) t(2) t(3) g t(4) f(1) f(2)] f(3) l u
    by simp
qed

text \<open>
  Claim C8. For a group-chat text message that is not a command, from a sender with no
  row in the table, the handler posts no relay message: its first call is the reminder,
  sent as a reply to the original message; when that call did not raise, it sleeps for
  15 seconds and then deletes the reminder, and makes no other call. When the reply or
  the deletion raises, one error is added to the log and nothing else happens. The handler
  returns without raising in every case.
\<close>

theorem handle_group_message_reminds:
  assumes "chat_type u = Group \<or> chat_type u = Supergroup"
      and "msg_text u = Some t" and "\<not> startswith_slash t"
      and "\<forall>r\<in>set (users w). telegram_id r \<noteq> user_id (effective_user u)"
  shows "fst (handle_group_message u w) = Inr ()
    \<and> calls (snd (handle_group_message u w)) =
        calls w @
          Reply_text (update_message u) (msg_reminder (first_name (effective_user u)))
            (Some Markdown) (Some (message_id u))
          # (if raises (api_faults w) 0 then []
             else [Sleep 15,
                   Delete_message
                     \<lparr>msg_chat_id = effective_chat_id u, msg_id = next_message_id w\<rparr>])
    \<and> (\<forall>c\<in>set (drop (length (calls w)) (calls (snd (handle_group_message u w)))).
          \<not> is_send c)
    \<and> logged (snd (handle_group_message u w)) =
        logged (snd (get_user_nick (user_id (effective_user u)) w))
          @ (if raises (api_faults w) 0 \<or> raises (api_faults w) 1
             then [(Error, Reminder_failed Telegram_error)] else [])"
proof -
  let ?g = "get_user_nick (user_id (effective_user u)) w"
  have g: "?g = (Inr None, snd ?g)"
    using get_user_nick_no_row [OF assms(4)] by (metis prod.collapse)
  show ?thesis
    by (simp add: handle_group_message_reminder [OF assms(1,2,3) g] Let_def
        get_user_nick_platform is_send_def)
qed

theorem handle_group_message_reminds_witness:
  "users (world0\<lparr>users := [zed_row]\<rparr>) = [zed_row]
   \<and> telegram_id zed_row \<noteq> user_id (effective_user group_update)
   \<and> fst (handle_group_message group_update (world0\<lparr>users := [zed_row]\<rparr>)) = Inr ()
   \<and> calls (snd (handle_group_message group_update (world0\<lparr>users := [zed_row]\<rparr>))) =
       [Reply_text \<lparr>msg_chat_id = - 100, msg_id = 41\<rparr> (msg_reminder (ascii ''Ann''))
          (Some Markdown) (Some 41),
        Sleep 15,
        Delete_message \<lparr>msg_chat_id = - 100, msg_id = 500\<rparr>]
   \<and> logged (snd (handle_group_message group_update (world0\<lparr>users := [zed_row]\<rparr>))) = []"
proof -
  let ?w = "world0\<lparr>users := [zed_row]\<rparr>"
  have n: "\<forall>r\<in>set (users ?w). telegram_id r \<noteq> user_id (effective_user group_update)"
    and z: "telegram_id zed_row \<noteq> user_id (effective_user group_update)"
    by (simp_all add: zed_row_def group_update_def ann_def)
  have l: "logged (snd (get_user_nick (user_id (effective_user group_update)) ?w)) = []"
    by (simp add: get_user_nick_eq world0_def)
  have t: "chat_type group_update = Group \<or> chat_type group_update = Supergroup"
    "msg_text group_update = Some (ascii ''hi'')"
    "\<not> startswith_slash (ascii ''hi'')"
    by (simp_all add: group_update_def startswith_slash_def ascii_def)
  have f: "\<not> raises (api_faults ?w) 0" "\<not> raises (api_faults ?w) 1"
    by (simp_all add: world0_def)
  have u: "effective_chat_id group_update = - 100" "message_id group_update = 41"
    "update_message group_update = \<lparr>msg_chat_id = - 100, msg_id = 41\<rparr>"
    "first_name (effective_user group_update) = ascii ''Ann''"
    "calls ?w = []" "next_message_id ?w = 500"
    by (simp_all add: group_update_def update_message_def world0_def ann_def)
  show ?thesis
    using handle_group_message_reminds [OF t(1) t(2) t(3) n] f l u z
    by simp
qed

section \<open>The command \<open>/find\<close>\<close>

lemma search_nick_at_most_10:
  assumes "fst (search_nick sel s w) = Inr rs"
  shows "length rs \<le> 10"
  using assms by (auto simp: search_nick_eq select_or_def split: if_splits)

lemma find_response_at_most_10:
  assumes "length rs \<le> 10"
  shows "find_response s rs =
     (if rs \<noteq> [] then msg_found_header s @ found_lines 1 rs else msg_not_found s)"
  using assms by (simp add: find_response_def)

lemma found_lines_ten:
  "found_lines 1 [(n1, k1), (n2, k2), (n3, k3), (n4, k4), (n5, k5), (n6, k6), (n7, k7),
       (n8, k8), (n9, k9), (n10, k10)] =
     msg_found_line 1 k1 n1 @ msg_found_line 2 k2 n2 @ msg_found_line 3 k3 n3
     @ msg_found_line 4 k4 n4 @ msg_found_line 5 k5 n5 @ msg_found_line 6 k6 n6
     @ msg_found_line 7 k7 n7 @ msg_found_line 8 k8 n8 @ msg_found_line 9 k9 n9
     @ msg_found_line 10 k10 n10"
  by (simp add: numeral_eq_Suc)

lemma rows10: "map (\<lambda>r. (telegram_name r, game_nick r)) (take 10 pro_rows) =
   [(ascii ''ann'', ascii ''proa''), (ascii ''ann'', ascii ''prob''),
    (ascii ''ann'', ascii ''proc''), (ascii ''ann'', ascii ''prod''),
    (ascii ''ann'', ascii ''proe''), (ascii ''ann'', ascii ''prof''),
    (ascii ''ann'', ascii ''prog''), (ascii ''ann'', ascii ''proh''),
    (ascii ''ann'', ascii ''proi''), (ascii ''ann'', ascii ''proj'')]"
  by (simp add: pro_rows_def pro_row_def ascii_def)

lemma find_command_search:
  assumes "args \<noteq> []" and "fst (search_nick sel (join_space args) w) = Inr rs"
  shows "calls (snd (find_command sel u args w)) =
     calls w @ [Reply_text (update_message u) (find_response (join_space args) rs)
                  (Some Markdown) None]"
proof -
  obtain w1 where s: "search_nick sel (join_space args) w = (Inr rs, w1)"
    using assms(2) by (metis prod.collapse)
  have "calls (snd (search_nick sel (join_space args) w)) = calls w"
    by (simp add: search_nick_eq)
  then have "calls w1 = calls w"
    by (simp add: s)
  then show ?thesis
    using assms(1) by (simp add: find_command_def Let_def bind_io_def reply_eq s)
qed

text \<open>
  The search returns at most 10 rows, so the reply to \<open>/find\<close> with arguments is the
  heading with one numbered line for each row returned, or the nothing-found text: the
  branch of source lines 336 and 337, which would add the count of omitted results, is
  never taken.
\<close>

lemma find_command_never_reports_omitted:
  assumes "args \<noteq> []"
  shows "\<exists>rs. fst (search_nick sel (join_space args) w) = Inr rs \<and> length rs \<le> 10
    \<and> calls (snd (find_command sel u args w)) =
        calls w @
          [Reply_text (update_message u)
             (if rs \<noteq> [] then msg_found_header (join_space args) @ found_lines 1 rs
              else msg_not_found (join_space args))
             (Some Markdown) None]"
proof -
  obtain rs where rs: "fst (search_nick sel (join_space args) w) = Inr rs"
    by (cases "raises (db_faults w) 0") (simp_all add: search_nick_eq)
  note len = search_nick_at_most_10 [OF rs]
  show ?thesis
    using find_command_search [OF assms rs] rs len
    by (simp add: find_response_at_most_10 [OF len])
qed

text \<open>
  Claim C3 at a failing input. The table holds eleven rows whose nicknames contain
  \<open>pro\<close>, all eleven match the search, and nothing fails. The reply to \<open>/find pro\<close> is
  the heading and the ten numbered lines of the first ten rows: it does not go on with
  the text that says that one more result was omitted.
\<close>

theorem find_command_eleven_matches:
  "length (filter (sample_sel (ascii ''pro'') (or_filter (ascii ''pro''))) pro_rows) = 11
   \<and> calls (snd (find_command (sample_sel (ascii ''pro'')) find_update [ascii ''pro'']
        (world0\<lparr>users := pro_rows\<rparr>))) =
       [Reply_text \<lparr>msg_chat_id = 7, msg_id = 13\<rparr>
          (msg_found_header (ascii ''pro'')
           @ msg_found_line 1 (ascii ''proa'') (ascii ''ann'')
           @ msg_found_line 2 (ascii ''prob'') (ascii ''ann'')
           @ msg_found_line 3 (ascii ''proc'') (ascii ''ann'')
           @ msg_found_line 4 (ascii ''prod'') (ascii ''ann'')
           @ msg_found_line 5 (ascii ''proe'') (ascii ''ann'')
           @ msg_found_line 6 (ascii ''prof'') (ascii ''ann'')
           @ msg_found_line 7 (ascii ''prog'') (ascii ''ann'')
           @ msg_found_line 8 (ascii ''proh'') (ascii ''ann'')
           @ msg_found_line 9 (ascii ''proi'') (ascii ''ann'')
           @ msg_found_line 10 (ascii ''proj'') (ascii ''ann''))
          (Some Markdown) None]"
proof -
  have m: "sample_sel (ascii ''pro'') (or_filter (ascii ''pro'')) (pro_row i)" for i
    by (simp add: sample_sel_def pro_row_def ascii_def)
  have all: "filter (sample_sel (ascii ''pro'') (or_filter (ascii ''pro''))) pro_rows = pro_rows"
    by (simp add: pro_rows_def m)
  have rs: "fst (search_nick (sample_sel (ascii ''pro'')) (join_space [ascii ''pro''])
        (world0\<lparr>users := pro_rows\<rparr>)) =
      Inr (map (\<lambda>r. (telegram_name r, game_nick r)) (take 10 pro_rows))"
    by (simp add: search_nick_eq select_or_def all world0_def)
  have lines: "found_lines 1 (map (\<lambda>r. (telegram_name r, game_nick r)) (take 10 pro_rows)) =
      msg_found_line 1 (ascii ''proa'') (ascii ''ann'')
      @ msg_found_line 2 (ascii ''prob'') (ascii ''ann'')
      @ msg_found_line 3 (ascii ''proc'') (ascii ''ann'')
      @ msg_found_line 4 (ascii ''prod'') (ascii ''ann'')
      @ msg_found_line 5 (ascii ''proe'') (ascii ''ann'')
      @ msg_found_line 6 (ascii ''prof'') (ascii ''ann'')
      @ msg_found_line 7 (ascii ''prog'') (ascii ''ann'')
      @ msg_found_line 8 (ascii ''proh'') (ascii ''ann'')
      @ msg_found_line 9 (ascii ''proi'') (ascii ''ann'')
      @ msg_found_line 10 (ascii ''proj'') (ascii ''ann'')"
    by (simp only: rows10 found_lines_ten)
  have c: "calls (snd (find_command (sample_sel (ascii ''pro'')) find_update [ascii ''pro'']
        (world0\<lparr>users := pro_rows\<rparr>))) =
      calls (world0\<lparr>users := pro_rows\<rparr>) @
        [Reply_text (update_message find_update)
           (find_response (join_space [ascii ''pro''])
              (map (\<lambda>r. (telegram_name r, game_nick r)) (take 10 pro_rows)))
           (Some Markdown) None]"
    by (rule find_command_search [OF _ rs]) simp
  have fr: "find_response (join_space [ascii ''pro''])
        (map (\<lambda>r. (telegram_name r, game_nick r)) (take 10 pro_rows)) =
      msg_found_header (ascii ''pro'')
        @ found_lines 1 (map (\<lambda>r. (telegram_name r, game_nick r)) (take 10 pro_rows))"
    by (simp add: find_response_at_most_10 pro_rows_def)
  have cw: "calls (world0\<lparr>users := pro_rows\<rparr>) = []"
    by (simp add: world0_def)
  have um: "update_message find_update = \<lparr>msg_chat_id = 7, msg_id = 13\<rparr>"
    by (simp add: find_update_def update_message_def)
  have eleven: "length (filter (sample_sel (ascii ''pro'') (or_filter (ascii ''pro'')))
      pro_rows) = 11"
    by (simp add: all) (simp add: pro_rows_def)
  have "calls (snd (find_command (sample_sel (ascii ''pro'')) find_update [ascii ''pro'']
        (world0\<lparr>users := pro_rows\<rparr>))) =
       [Reply_text \<lparr>msg_chat_id = 7, msg_id = 13\<rparr>
          (msg_found_header (ascii ''pro'')
           @ msg_found_line 1 (ascii ''proa'') (ascii ''ann'')
           @ msg_found_line 2 (ascii ''prob'') (ascii ''ann'')
           @ msg_found_line 3 (ascii ''proc'') (ascii ''ann'')
           @ msg_found_line 4 (ascii ''prod'') (ascii ''ann'')
           @ msg_found_line 5 (ascii ''proe'') (ascii ''ann'')
           @ msg_found_line 6 (ascii ''prof'') (ascii ''ann'')
           @ msg_found_line 7 (ascii ''prog'') (ascii ''ann'')
           @ msg_found_line 8 (ascii ''proh'') (ascii ''ann'')
           @ msg_found_line 9 (ascii ''proi'') (ascii ''ann'')
           @ msg_found_line 10 (ascii ''proj'') (ascii ''ann''))
          (Some Markdown) None]"
    by (simp only: c fr lines cw um append_Nil)
  with eleven show ?thesis
    by (rule conjI)
qed

end
